theory Spec2Isabelle
  imports
    Main
    "HOL-Library.Word"
    "HOL-Library.Dlist"
    "HOL-Library.Char_ord"
    "HOL-Library.List_Lexorder"
    "HOL-Library.Sublist"
begin

section \<open>glinf: data model\<close>

text \<open>
  The program is the single function \<open>main\<close> of \<open>glinf.cpp\<close> with the two helpers
  \<open>getI\<close> and \<open>getS\<close>. Everything the program observes from Qt and from the
  graphics driver is made an explicit argument: the parsed command line, the
  library function \<open>QString::toUInt\<close>, and the driver's answer to every context
  creation request.
\<close>

subsection \<open>Surface formats and contexts\<close>

datatype renderable_type = DefaultRenderableType | OpenGL | OpenGLES

datatype opengl_profile = NoProfile | CoreProfile | CompatibilityProfile

text \<open>The fields of \<open>QSurfaceFormat\<close> that the program sets or reads.\<close>

record surface_format =
  renderableType :: renderable_type
  profile :: opengl_profile
  majorVersion :: int
  minorVersion :: int

text \<open>A default-constructed \<open>QSurfaceFormat\<close>.\<close>

definition default_surface_format :: surface_format where
  "default_surface_format =
     \<lparr>renderableType = DefaultRenderableType, profile = NoProfile,
      majorVersion = 2, minorVersion = 0\<rparr>"

text \<open>The integer queries of the report, one constructor per \<open>GLenum\<close> constant used.\<close>

datatype glenum =
    GL_MAX_TEXTURE_SIZE
  | GL_MAX_3D_TEXTURE_SIZE
  | GL_MAX_CUBE_MAP_TEXTURE_SIZE
  | GL_MAX_ARRAY_TEXTURE_LAYERS
  | GL_MAX_FRAMEBUFFER_WIDTH
  | GL_MAX_FRAMEBUFFER_HEIGHT
  | GL_MAX_COLOR_ATTACHMENTS
  | GL_MAX_DRAW_BUFFERS
  | GL_MAX_VERTEX_UNIFORM_COMPONENTS
  | GL_MAX_TESS_CONTROL_UNIFORM_COMPONENTS
  | GL_MAX_TESS_EVALUATION_UNIFORM_COMPONENTS
  | GL_MAX_GEOMETRY_UNIFORM_COMPONENTS
  | GL_MAX_FRAGMENT_UNIFORM_COMPONENTS
  | GL_MAX_COMPUTE_UNIFORM_COMPONENTS
  | GL_MAX_VERTEX_ATTRIBS
  | GL_MAX_TESS_CONTROL_INPUT_COMPONENTS
  | GL_MAX_TESS_EVALUATION_INPUT_COMPONENTS
  | GL_MAX_GEOMETRY_INPUT_COMPONENTS
  | GL_MAX_FRAGMENT_INPUT_COMPONENTS
  | GL_MAX_VERTEX_OUTPUT_COMPONENTS
  | GL_MAX_TESS_CONTROL_OUTPUT_COMPONENTS
  | GL_MAX_TESS_EVALUATION_OUTPUT_COMPONENTS
  | GL_MAX_GEOMETRY_OUTPUT_COMPONENTS
  | GL_MAX_VERTEX_TEXTURE_IMAGE_UNITS
  | GL_MAX_TESS_CONTROL_TEXTURE_IMAGE_UNITS
  | GL_MAX_TESS_EVALUATION_TEXTURE_IMAGE_UNITS
  | GL_MAX_GEOMETRY_TEXTURE_IMAGE_UNITS
  | GL_MAX_TEXTURE_IMAGE_UNITS
  | GL_MAX_COMPUTE_TEXTURE_IMAGE_UNITS
  | GL_MAX_COMBINED_TEXTURE_IMAGE_UNITS

text \<open>The string queries of the report.\<close>

datatype glstring = GL_VERSION | GL_SHADING_LANGUAGE_VERSION | GL_VENDOR | GL_RENDERER

text \<open>
  A \<open>QOpenGLContext\<close> object as far as the program observes it: \<open>create\<close> is the
  result of \<open>create()\<close>, \<open>format\<close> the format the driver actually granted,
  \<open>makeCurrent\<close> the result of \<open>makeCurrent(surface)\<close>, \<open>extensions\<close> the
  \<open>QSet<QByteArray>\<close> in its iteration order (a list without duplicates),
  \<open>glGetIntegerv\<close> the value the driver writes for a query (\<open>None\<close> when it
  writes nothing) and \<open>glGetString\<close> the string it returns. \<open>GLint\<close> is a
  32-bit integer, read as signed with \<open>sint\<close>.
\<close>

record gl_context =
  create :: bool
  isOpenGLES :: bool
  format :: surface_format
  makeCurrent :: bool
  extensions :: "string dlist"
  glGetIntegerv :: "glenum \<Rightarrow> 32 word option"
  glGetString :: "glstring \<Rightarrow> string"

text \<open>
  The driver: the context object that \<open>new QOpenGLContext\<close> followed by
  \<open>create()\<close> yields under a given default surface format.
\<close>

type_synonym driver = "surface_format \<Rightarrow> gl_context"

subsection \<open>Observable effects\<close>

text \<open>
  Allocation and release of the offscreen surfaces and contexts, in program order.
  The number is the index of the loop iteration that allocated the object;
  \<open>NewContext\<close> carries the default format in force when the context is created.
\<close>

datatype event =
    NewSurface nat
  | NewContext nat surface_format
  | DeleteContext nat
  | DeleteSurface nat
  | MakeCurrent nat

text \<open>The state of the process when \<open>main\<close> returns.\<close>

record run =
  stdout :: "string list"
  stderr :: "string list"
  exit_code :: int
  trace :: "event list"

section \<open>Processing the command line (lines 60--101)\<close>

text \<open>
  What \<open>QCommandLineParser\<close> hands to the program after \<open>parser.process(app)\<close>:
  for each value option \<open>None\<close> when \<open>isSet\<close> is false and otherwise its
  \<open>value\<close>; \<open>opt_extensions\<close> is \<open>isSet("extensions")\<close>.
\<close>

record options =
  opt_type :: "string option"
  opt_profile :: "string option"
  opt_version :: "string option"
  opt_extensions :: bool

text \<open>\<open>QString::compare(s, Qt::CaseInsensitive) == 0\<close> on ASCII text: the letters
  \<open>A\<close> to \<open>Z\<close> are folded to lower case before the comparison.\<close>

definition toLower :: "char \<Rightarrow> char" where
  "toLower c =
     (case map_of (zip ''ABCDEFGHIJKLMNOPQRSTUVWXYZ'' ''abcdefghijklmnopqrstuvwxyz'') c of
        None \<Rightarrow> c
      | Some l \<Rightarrow> l)"

definition compare_ci :: "string \<Rightarrow> string \<Rightarrow> bool" where
  "compare_ci s t = (map toLower s = map toLower t)"

text \<open>\<open>QString::split(sep)\<close> with the default \<open>Qt::KeepEmptyParts\<close>.\<close>

fun split :: "char \<Rightarrow> string \<Rightarrow> string list" where
  "split sep [] = [[]]"
| "split sep (c # cs) =
     (if c = sep then [] # split sep cs
      else (case split sep cs of
              [] \<Rightarrow> [[c]]
            | p # ps \<Rightarrow> (c # p) # ps))"

text \<open>The four trial bounds together with the format assembled from the options.\<close>

record config =
  cfg_format :: surface_format
  tryMajorMax :: int
  tryMinorMax :: int
  tryMajorMin :: int
  tryMinorMin :: int

text \<open>Lines 61--70. \<open>Inl\<close> carries the line printed to standard error before
  \<open>return 1\<close>.\<close>

definition process_type :: "options \<Rightarrow> surface_format \<Rightarrow> string + surface_format" where
  "process_type opts fmt =
     (case opt_type opts of
        None \<Rightarrow> Inr fmt
      | Some v \<Rightarrow>
          if compare_ci v ''opengl'' then Inr (fmt\<lparr>renderableType := OpenGL\<rparr>)
          else if compare_ci v ''opengles'' then Inr (fmt\<lparr>renderableType := OpenGLES\<rparr>)
          else Inl ''invalid type'')"

text \<open>Lines 71--82.\<close>

definition process_profile :: "options \<Rightarrow> surface_format \<Rightarrow> string + surface_format" where
  "process_profile opts fmt0 =
     (let fmt = fmt0\<lparr>profile := CoreProfile\<rparr>
      in case opt_profile opts of
           None \<Rightarrow> Inr fmt
         | Some v \<Rightarrow>
             if compare_ci v ''core'' then Inr (fmt\<lparr>profile := CoreProfile\<rparr>)
             else if compare_ci v ''compat'' \<or> compare_ci v ''compatibility''
               then Inr (fmt\<lparr>profile := CompatibilityProfile\<rparr>)
             else Inl ''invalid profile'')"

text \<open>
  Lines 83--101. \<open>toUInt\<close> is \<open>QString::toUInt\<close>: \<open>None\<close> when it sets its
  \<open>ok\<close> flag to false, otherwise the \<open>unsigned int\<close> it returns. The
  assignment of an \<open>unsigned int\<close> to the \<open>int\<close> bounds keeps the 32 bits and
  reads them as signed (\<open>sint\<close>).
\<close>

definition process_version ::
  "(string \<Rightarrow> 32 word option) \<Rightarrow> options \<Rightarrow> surface_format \<Rightarrow> string + config"
where
  "process_version toUInt opts fmt =
     (case opt_version opts of
        None \<Rightarrow>
          Inr \<lparr>cfg_format = fmt, tryMajorMax = 4, tryMinorMax = 9,
               tryMajorMin = 3, tryMinorMin = 2\<rparr>
      | Some v \<Rightarrow>
          (case split (CHR ''.'') v of
             [a, b] \<Rightarrow>
               (case (toUInt a, toUInt b) of
                  (Some major, Some minor) \<Rightarrow>
                    Inr \<lparr>cfg_format = fmt, tryMajorMax = sint major, tryMinorMax = sint minor,
                         tryMajorMin = sint major, tryMinorMin = sint minor\<rparr>
                | _ \<Rightarrow> Inl ''invalid version'')
           | _ \<Rightarrow> Inl ''invalid version''))"

definition process_command_line ::
  "(string \<Rightarrow> 32 word option) \<Rightarrow> options \<Rightarrow> string + config"
where
  "process_command_line toUInt opts =
     (case process_type opts default_surface_format of
        Inl msg \<Rightarrow> Inl msg
      | Inr fmt1 \<Rightarrow>
          (case process_profile opts fmt1 of
             Inl msg \<Rightarrow> Inl msg
           | Inr fmt2 \<Rightarrow> process_version toUInt opts fmt2))"

section \<open>Version negotiation (lines 103--142)\<close>

text \<open>Lines 115--122: \<open>ok\<close> after the version check.\<close>

definition attempt_ok :: "gl_context \<Rightarrow> int \<Rightarrow> int \<Rightarrow> bool" where
  "attempt_ok context tryMajor tryMinor =
     (if create context then
        \<not> (majorVersion (format context) < tryMajor
           \<or> (majorVersion (format context) = tryMajor
               \<and> minorVersion (format context) < tryMinor))
      else False)"

text \<open>What the loop leaves behind when it is left by \<open>break\<close>: the flag \<open>ok\<close>, the
  context object, the index of the iteration that allocated it and the trace.\<close>

record negotiation =
  neg_ok :: bool
  neg_context :: gl_context
  neg_handle :: nat
  neg_trace :: "event list"

text \<open>
  One call per iteration of \<open>for (;;)\<close>. \<open>h\<close> counts the iterations and
  \<open>tr\<close> is the trace so far. The version variables are C++ \<open>int\<close>s, modelled
  as unbounded integers; where the source would go on decrementing for ever the
  model does not return (\<open>None\<close>).
\<close>

partial_function (option) negotiate ::
  "driver \<Rightarrow> surface_format \<Rightarrow> int \<Rightarrow> int \<Rightarrow> int \<Rightarrow> int \<Rightarrow> nat \<Rightarrow> event list
     \<Rightarrow> negotiation option"
where
  "negotiate drv fmt majorMin minorMin tryMajor tryMinor h tr =
     (let fmt' = fmt\<lparr>majorVersion := tryMajor, minorVersion := tryMinor\<rparr>;
          tr' = tr @ [NewSurface h, NewContext h fmt'];
          context = drv fmt';
          ok = attempt_ok context tryMajor tryMinor
      in if \<not> ok then
           if tryMajor > majorMin \<and> tryMinor = 0 then
             negotiate drv fmt majorMin minorMin (tryMajor - 1) 9 (Suc h)
               (tr' @ [DeleteContext h, DeleteSurface h])
           else if tryMajor > majorMin \<or> tryMinor > minorMin then
             negotiate drv fmt majorMin minorMin tryMajor (tryMinor - 1) (Suc h)
               (tr' @ [DeleteContext h, DeleteSurface h])
           else
             Some \<lparr>neg_ok = ok, neg_context = context, neg_handle = h, neg_trace = tr'\<rparr>
         else
           Some \<lparr>neg_ok = ok, neg_context = context, neg_handle = h, neg_trace = tr'\<rparr>)"

declare negotiate.simps [code]

section \<open>The report (lines 153--224)\<close>

text \<open>\<open>getI\<close>: the local \<open>v\<close> starts at 0 and is overwritten when the driver
  writes a value. \<open>getS\<close> passes the driver's string through.\<close>

definition getI :: "gl_context \<Rightarrow> glenum \<Rightarrow> 32 word" where
  "getI gl p = (case glGetIntegerv gl p of None \<Rightarrow> 0 | Some v \<Rightarrow> v)"

definition getS :: "gl_context \<Rightarrow> glstring \<Rightarrow> string" where
  "getS gl p = glGetString gl p"

text \<open>Decimal digits of a natural number, and \<open>QString::number(int)\<close>.\<close>

fun digits :: "nat \<Rightarrow> string" where
  "digits n =
     (if n < 10 then [''0123456789'' ! n]
      else digits (n div 10) @ [''0123456789'' ! (n mod 10)])"

declare digits.simps [simp del]

definition number :: "int \<Rightarrow> string" where
  "number i = (if i < 0 then CHR ''-'' # digits (nat (- i)) else digits (nat i))"

text \<open>\<open>printf("%5d", v)\<close>: the signed value, right-justified in five columns.\<close>

definition printf_5d :: "32 word \<Rightarrow> string" where
  "printf_5d v = (let s = number (sint v) in replicate (5 - length s) CHR '' '' @ s)"

text \<open>Lines 154--164: the text after \<open>Context:\<close>.\<close>

definition contextString :: "gl_context \<Rightarrow> string" where
  "contextString context =
     (if isOpenGLES context then ''OpenGLES'' else ''OpenGL'')
     @ '' version ''
     @ number (majorVersion (format context)) @ ''.''
     @ number (minorVersion (format context))
     @ (if \<not> isOpenGLES context
           \<and> (majorVersion (format context) > 3
               \<or> (majorVersion (format context) = 3 \<and> minorVersion (format context) \<ge> 2))
        then '' ''
             @ (if profile (format context) = CompatibilityProfile
                then ''compatibility'' else ''core'')
             @ '' profile''
        else '''')"

text \<open>Lines 165--169.\<close>

definition general_info :: "gl_context \<Rightarrow> string list" where
  "general_info context =
     [''Context:    '' @ contextString context,
      ''Version:    '' @ getS context GL_VERSION,
      ''SL Version: '' @ getS context GL_SHADING_LANGUAGE_VERSION,
      ''Vendor:     '' @ getS context GL_VENDOR,
      ''Renderer:   '' @ getS context GL_RENDERER]"

text \<open>Lines 173--178: the non-empty members of the set, sorted by \<open>std::sort\<close> with
  \<open>QByteArray\<close>'s byte-wise \<open>operator<\<close>.\<close>

definition sortedExtensions :: "gl_context \<Rightarrow> string list" where
  "sortedExtensions context =
     sort (filter (\<lambda>ext. length ext > 0) (list_of_dlist (extensions context)))"

text \<open>Lines 172--182.\<close>

definition print_extensions :: "bool \<Rightarrow> gl_context \<Rightarrow> string list" where
  "print_extensions isSet context =
     (if isSet
      then ''Extensions:'' # map (\<lambda>ext. ''    '' @ ext) (sortedExtensions context)
      else [])"

text \<open>A line of the limits section: a heading, or a \<open>printf\<close> with a label, one
  \<open>%5d\<close> value and the text that follows it.\<close>

datatype limit_line = Heading string | Limit string "32 word" string

fun render :: "limit_line \<Rightarrow> string" where
  "render (Heading s) = s"
| "render (Limit label v ident) = label @ printf_5d v @ ''  '' @ ident"

text \<open>Lines 185--224, one entry per \<open>printf\<close>.\<close>

definition limits :: "gl_context \<Rightarrow> limit_line list" where
  "limits gl =
    [Heading ''Resource limitations:'',
     Heading ''  Texture limits:'',
     Limit ''    1D / 2D size: '' (getI gl GL_MAX_TEXTURE_SIZE) ''GL_MAX_TEXTURE_SIZE'',
     Limit ''    3D size:      '' (getI gl GL_MAX_3D_TEXTURE_SIZE) ''GL_MAX_3D_TEXTURE_SIZE'',
     Limit ''    Cubemap size: '' (getI gl GL_MAX_CUBE_MAP_TEXTURE_SIZE) ''GL_MAX_CUBE_MAP_TEXTURE_SIZE'',
     Limit ''    Arr. layers:  '' (getI gl GL_MAX_ARRAY_TEXTURE_LAYERS) ''GL_MAX_ARRAY_TEXTURE_LAYERS'',
     Heading ''  Framebuffer object limits:'',
     Limit ''    Width:        '' (getI gl GL_MAX_FRAMEBUFFER_WIDTH) ''GL_MAX_FRAMEBUFFER_WIDTH'',
     Limit ''    Height:       '' (getI gl GL_MAX_FRAMEBUFFER_HEIGHT) ''GL_MAX_FRAMEBUFFER_HEIGHT'',
     Limit ''    Color Attach.:'' (getI gl GL_MAX_COLOR_ATTACHMENTS) ''GL_MAX_COLOR_ATTACHMENTS'',
     Limit ''    Draw buffers: '' (getI gl GL_MAX_DRAW_BUFFERS) ''GL_MAX_DRAW_BUFFERS'',
     Heading ''  Maximum number of uniform components in shader stage:'',
     Limit ''    Vertex:       '' (getI gl GL_MAX_VERTEX_UNIFORM_COMPONENTS) ''GL_MAX_VERTEX_UNIFORM_COMPONENTS'',
     Limit ''    Tess. Ctrl.:  '' (getI gl GL_MAX_TESS_CONTROL_UNIFORM_COMPONENTS) ''GL_MAX_TESS_CONTROL_UNIFORM_COMPONENTS'',
     Limit ''    Tess. Eval.:  '' (getI gl GL_MAX_TESS_EVALUATION_UNIFORM_COMPONENTS) ''GL_MAX_TESS_EVALUATION_UNIFORM_COMPONENTS'',
     Limit ''    Geometry:     '' (getI gl GL_MAX_GEOMETRY_UNIFORM_COMPONENTS) ''GL_MAX_GEOMETRY_UNIFORM_COMPONENTS'',
     Limit ''    Fragment:     '' (getI gl GL_MAX_FRAGMENT_UNIFORM_COMPONENTS) ''GL_MAX_FRAGMENT_UNIFORM_COMPONENTS'',
     Limit ''    Compute:      '' (getI gl GL_MAX_COMPUTE_UNIFORM_COMPONENTS) ''GL_MAX_COMPUTE_UNIFORM_COMPONENTS'',
     Heading ''  Maximum number of input components in shader stage:'',
     Limit ''    Vertex:       '' (4 * getI gl GL_MAX_VERTEX_ATTRIBS) ''4*GL_MAX_VERTEX_ATTRIBS'',
     Limit ''    Tess. Ctrl.:  '' (getI gl GL_MAX_TESS_CONTROL_INPUT_COMPONENTS) ''GL_MAX_TESS_CONTROL_INPUT_COMPONENTS'',
     Limit ''    Tess. Eval.:  '' (getI gl GL_MAX_TESS_EVALUATION_INPUT_COMPONENTS) ''GL_MAX_TESS_EVALUATION_INPUT_COMPONENTS'',
     Limit ''    Geometry:     '' (getI gl GL_MAX_GEOMETRY_INPUT_COMPONENTS) ''GL_MAX_GEOMETRY_INPUT_COMPONENTS'',
     Limit ''    Fragment:     '' (getI gl GL_MAX_FRAGMENT_INPUT_COMPONENTS) ''GL_MAX_FRAGMENT_INPUT_COMPONENTS'',
     Heading ''  Maximum number of output components in shader stage:'',
     Limit ''    Vertex:       '' (getI gl GL_MAX_VERTEX_OUTPUT_COMPONENTS) ''GL_MAX_VERTEX_OUTPUT_COMPONENTS'',
     Limit ''    Tess. Ctrl.:  '' (getI gl GL_MAX_TESS_CONTROL_OUTPUT_COMPONENTS) ''GL_MAX_TESS_CONTROL_OUTPUT_COMPONENTS'',
     Limit ''    Tess. Eval.:  '' (getI gl GL_MAX_TESS_EVALUATION_OUTPUT_COMPONENTS) ''GL_MAX_TESS_EVALUATION_OUTPUT_COMPONENTS'',
     Limit ''    Geometry:     '' (getI gl GL_MAX_GEOMETRY_OUTPUT_COMPONENTS) ''GL_MAX_GEOMETRY_OUTPUT_COMPONENTS'',
     Limit ''    Fragment:     '' (4 * getI gl GL_MAX_DRAW_BUFFERS) ''4*GL_MAX_DRAW_BUFFERS'',
     Heading ''  Maximum number of samplers in shader stage:'',
     Limit ''    Vertex:       '' (getI gl GL_MAX_VERTEX_TEXTURE_IMAGE_UNITS) ''GL_MAX_VERTEX_TEXTURE_IMAGE_UNITS'',
     Limit ''    Tess. Ctrl.:  '' (getI gl GL_MAX_TESS_CONTROL_TEXTURE_IMAGE_UNITS) ''GL_MAX_TESS_CONTROL_TEXTURE_IMAGE_UNITS'',
     Limit ''    Tess. Eval.:  '' (getI gl GL_MAX_TESS_EVALUATION_TEXTURE_IMAGE_UNITS) ''GL_MAX_TESS_EVALUATION_TEXTURE_IMAGE_UNITS'',
     Limit ''    Geometry:     '' (getI gl GL_MAX_GEOMETRY_TEXTURE_IMAGE_UNITS) ''GL_MAX_GEOMETRY_TEXTURE_IMAGE_UNITS'',
     Limit ''    Fragment:     '' (getI gl GL_MAX_TEXTURE_IMAGE_UNITS) ''GL_MAX_TEXTURE_IMAGE_UNITS'',
     Limit ''    Compute:      '' (getI gl GL_MAX_COMPUTE_TEXTURE_IMAGE_UNITS) ''GL_MAX_COMPUTE_TEXTURE_IMAGE_UNITS'',
     Limit ''    Combined:     '' (getI gl GL_MAX_COMBINED_TEXTURE_IMAGE_UNITS) ''GL_MAX_COMBINED_TEXTURE_IMAGE_UNITS'']"

text \<open>Everything written to standard output, in program order.\<close>

definition report :: "bool \<Rightarrow> gl_context \<Rightarrow> string list" where
  "report isSet context =
     general_info context @ print_extensions isSet context @ map render (limits context)"

section \<open>The program\<close>

text \<open>
  \<open>main\<close> after \<open>parser.process(app)\<close>. \<open>None\<close> stands for a run that never
  leaves the negotiation loop.
\<close>

definition main :: "(string \<Rightarrow> 32 word option) \<Rightarrow> driver \<Rightarrow> options \<Rightarrow> run option" where
  "main toUInt drv opts =
     (case process_command_line toUInt opts of
        Inl msg \<Rightarrow> Some \<lparr>stdout = [], stderr = [msg], exit_code = 1, trace = []\<rparr>
      | Inr cfg \<Rightarrow>
          (case negotiate drv (cfg_format cfg) (tryMajorMin cfg) (tryMinorMin cfg)
                  (tryMajorMax cfg) (tryMinorMax cfg) 0 [] of
             None \<Rightarrow> None
           | Some n \<Rightarrow>
               if \<not> neg_ok n then
                 Some \<lparr>stdout = [], stderr = [''cannot create context''], exit_code = 1,
                       trace = neg_trace n\<rparr>
               else if \<not> makeCurrent (neg_context n) then
                 Some \<lparr>stdout = [], stderr = [''cannot make context current''], exit_code = 1,
                       trace = neg_trace n @ [MakeCurrent (neg_handle n)]\<rparr>
               else
                 Some \<lparr>stdout = report (opt_extensions opts) (neg_context n), stderr = [],
                       exit_code = 0,
                       trace = neg_trace n @ [MakeCurrent (neg_handle n)]\<rparr>))"

section \<open>Notions used to state the properties\<close>

text \<open>The versions requested by the context creations of a trace, in order.\<close>

fun trials :: "event list \<Rightarrow> (int \<times> int) list" where
  "trials [] = []"
| "trials (NewContext h f # es) = (majorVersion f, minorVersion f) # trials es"
| "trials (e # es) = trials es"

text \<open>Whether the attempt at trial version \<open>t\<close> ends with \<open>ok\<close> true.\<close>

definition succeeds :: "driver \<Rightarrow> surface_format \<Rightarrow> int \<times> int \<Rightarrow> bool" where
  "succeeds drv fmt t =
     attempt_ok (drv (fmt\<lparr>majorVersion := fst t, minorVersion := snd t\<rparr>)) (fst t) (snd t)"

text \<open>The format that the iteration at trial version \<open>t\<close> makes the default
  (\<open>format.setVersion(tryMajor, tryMinor)\<close>), and the version of the format that a
  context reports.\<close>

definition trial_format :: "surface_format \<Rightarrow> int \<times> int \<Rightarrow> surface_format" where
  "trial_format fmt t = fmt\<lparr>majorVersion := fst t, minorVersion := snd t\<rparr>"

definition granted_version :: "gl_context \<Rightarrow> int \<times> int" where
  "granted_version c = (majorVersion (format c), minorVersion (format c))"

text \<open>
  The step rule as the specification words it: from minor 0 of a major above the
  floor major go to minor 9 of the previous major; otherwise, while the trial is
  above the floor in major or in minor, decrement the minor; otherwise stop.
\<close>

definition step_down :: "int \<Rightarrow> int \<Rightarrow> int \<times> int \<Rightarrow> (int \<times> int) option" where
  "step_down majorMin minorMin t =
     (if fst t > majorMin \<and> snd t = 0 then Some (fst t - 1, 9)
      else if fst t > majorMin \<or> snd t > minorMin then Some (fst t, snd t - 1)
      else None)"

text \<open>A list of trial versions that follows \<open>step_down\<close> from its head until the
  rule stops.\<close>

fun descent :: "int \<Rightarrow> int \<Rightarrow> (int \<times> int) list \<Rightarrow> bool" where
  "descent majorMin minorMin [] = False"
| "descent majorMin minorMin [t] = (step_down majorMin minorMin t = None)"
| "descent majorMin minorMin (t # t' # ts) =
     (step_down majorMin minorMin t = Some t' \<and> descent majorMin minorMin (t' # ts))"

text \<open>The elements of a list up to and including the first that satisfies \<open>P\<close>.\<close>

fun attempted :: "('a \<Rightarrow> bool) \<Rightarrow> 'a list \<Rightarrow> 'a list" where
  "attempted P [] = []"
| "attempted P (t # ts) = (if P t then [t] else t # attempted P ts)"

text \<open>The eighteen versions from 4.9 down to 3.2.\<close>

definition default_trials :: "(int \<times> int) list" where
  "default_trials =
     [(4, 9), (4, 8), (4, 7), (4, 6), (4, 5), (4, 4), (4, 3), (4, 2), (4, 1), (4, 0),
      (3, 9), (3, 8), (3, 7), (3, 6), (3, 5), (3, 4), (3, 3), (3, 2)]"

text \<open>The trial versions that lie between the bounds of a configuration: the single
  version when the bounds coincide, and otherwise (the bounds are then the built-in
  4.9 and 3.2) the eighteen default versions.\<close>

definition config_trials :: "config \<Rightarrow> (int \<times> int) list" where
  "config_trials cfg =
     (if tryMajorMax cfg = tryMajorMin cfg \<and> tryMinorMax cfg = tryMinorMin cfg
      then [(tryMajorMax cfg, tryMinorMax cfg)] else default_trials)"

text \<open>Lexicographic order on versions.\<close>

definition version_le :: "int \<times> int \<Rightarrow> int \<times> int \<Rightarrow> bool" where
  "version_le a b = (fst a < fst b \<or> (fst a = fst b \<and> snd a \<le> snd b))"

definition version_less :: "int \<times> int \<Rightarrow> int \<times> int \<Rightarrow> bool" where
  "version_less a b = (fst a < fst b \<or> (fst a = fst b \<and> snd a < snd b))"

text \<open>The events of the iterations that fail and retry, the first of them with
  index \<open>h\<close>: allocate the pair, then delete the context and the surface.\<close>

fun retry_events :: "surface_format \<Rightarrow> nat \<Rightarrow> (int \<times> int) list \<Rightarrow> event list" where
  "retry_events fmt h [] = []"
| "retry_events fmt h (t # ts) =
     [NewSurface h, NewContext h (fmt\<lparr>majorVersion := fst t, minorVersion := snd t\<rparr>),
      DeleteContext h, DeleteSurface h] @ retry_events fmt (Suc h) ts"

text \<open>The surfaces and contexts that are allocated and not yet deleted.\<close>

datatype resource = Surface nat | Context nat

fun exec :: "resource set \<Rightarrow> event \<Rightarrow> resource set" where
  "exec live (NewSurface h) = insert (Surface h) live"
| "exec live (NewContext h f) = insert (Context h) live"
| "exec live (DeleteContext h) = live - {Context h}"
| "exec live (DeleteSurface h) = live - {Surface h}"
| "exec live (MakeCurrent h) = live"

definition live_after :: "event list \<Rightarrow> resource set" where
  "live_after tr = foldl exec {} tr"

text \<open>Every \<open>new QOffscreenSurface\<close> of the trace happens when nothing allocated
  earlier is still alive.\<close>

fun released_before_new :: "resource set \<Rightarrow> event list \<Rightarrow> bool" where
  "released_before_new live [] = True"
| "released_before_new live (NewSurface h # es) =
     (live = {} \<and> released_before_new (exec live (NewSurface h)) es)"
| "released_before_new live (e # es) = released_before_new (exec live e) es"

text \<open>Malformed option values: a type that is neither \<open>opengl\<close> nor \<open>opengles\<close>, a
  profile that is none of \<open>core\<close>, \<open>compat\<close> and \<open>compatibility\<close> (case-insensitive),
  a version that is not two parts around one dot which \<open>toUInt\<close> both accepts.\<close>

definition malformed_type :: "options \<Rightarrow> bool" where
  "malformed_type opts =
     (case opt_type opts of
        None \<Rightarrow> False
      | Some v \<Rightarrow> \<not> compare_ci v ''opengl'' \<and> \<not> compare_ci v ''opengles'')"

definition malformed_profile :: "options \<Rightarrow> bool" where
  "malformed_profile opts =
     (case opt_profile opts of
        None \<Rightarrow> False
      | Some v \<Rightarrow> \<not> compare_ci v ''core'' \<and> \<not> compare_ci v ''compat''
                  \<and> \<not> compare_ci v ''compatibility'')"

definition malformed_version :: "(string \<Rightarrow> 32 word option) \<Rightarrow> options \<Rightarrow> bool" where
  "malformed_version toUInt opts =
     (case opt_version opts of
        None \<Rightarrow> False
      | Some v \<Rightarrow>
          (case split (CHR ''.'') v of
             [a, b] \<Rightarrow> toUInt a = None \<or> toUInt b = None
           | _ \<Rightarrow> True))"


text \<open>The identifier of a query as the source spells it.\<close>

primrec glenum_name :: "glenum \<Rightarrow> string" where
  "glenum_name GL_MAX_TEXTURE_SIZE = ''GL_MAX_TEXTURE_SIZE''"
| "glenum_name GL_MAX_3D_TEXTURE_SIZE = ''GL_MAX_3D_TEXTURE_SIZE''"
| "glenum_name GL_MAX_CUBE_MAP_TEXTURE_SIZE = ''GL_MAX_CUBE_MAP_TEXTURE_SIZE''"
| "glenum_name GL_MAX_ARRAY_TEXTURE_LAYERS = ''GL_MAX_ARRAY_TEXTURE_LAYERS''"
| "glenum_name GL_MAX_FRAMEBUFFER_WIDTH = ''GL_MAX_FRAMEBUFFER_WIDTH''"
| "glenum_name GL_MAX_FRAMEBUFFER_HEIGHT = ''GL_MAX_FRAMEBUFFER_HEIGHT''"
| "glenum_name GL_MAX_COLOR_ATTACHMENTS = ''GL_MAX_COLOR_ATTACHMENTS''"
| "glenum_name GL_MAX_DRAW_BUFFERS = ''GL_MAX_DRAW_BUFFERS''"
| "glenum_name GL_MAX_VERTEX_UNIFORM_COMPONENTS = ''GL_MAX_VERTEX_UNIFORM_COMPONENTS''"
| "glenum_name GL_MAX_TESS_CONTROL_UNIFORM_COMPONENTS = ''GL_MAX_TESS_CONTROL_UNIFORM_COMPONENTS''"
| "glenum_name GL_MAX_TESS_EVALUATION_UNIFORM_COMPONENTS = ''GL_MAX_TESS_EVALUATION_UNIFORM_COMPONENTS''"
| "glenum_name GL_MAX_GEOMETRY_UNIFORM_COMPONENTS = ''GL_MAX_GEOMETRY_UNIFORM_COMPONENTS''"
| "glenum_name GL_MAX_FRAGMENT_UNIFORM_COMPONENTS = ''GL_MAX_FRAGMENT_UNIFORM_COMPONENTS''"
| "glenum_name GL_MAX_COMPUTE_UNIFORM_COMPONENTS = ''GL_MAX_COMPUTE_UNIFORM_COMPONENTS''"
| "glenum_name GL_MAX_VERTEX_ATTRIBS = ''GL_MAX_VERTEX_ATTRIBS''"
| "glenum_name GL_MAX_TESS_CONTROL_INPUT_COMPONENTS = ''GL_MAX_TESS_CONTROL_INPUT_COMPONENTS''"
| "glenum_name GL_MAX_TESS_EVALUATION_INPUT_COMPONENTS = ''GL_MAX_TESS_EVALUATION_INPUT_COMPONENTS''"
| "glenum_name GL_MAX_GEOMETRY_INPUT_COMPONENTS = ''GL_MAX_GEOMETRY_INPUT_COMPONENTS''"
| "glenum_name GL_MAX_FRAGMENT_INPUT_COMPONENTS = ''GL_MAX_FRAGMENT_INPUT_COMPONENTS''"
| "glenum_name GL_MAX_VERTEX_OUTPUT_COMPONENTS = ''GL_MAX_VERTEX_OUTPUT_COMPONENTS''"
| "glenum_name GL_MAX_TESS_CONTROL_OUTPUT_COMPONENTS = ''GL_MAX_TESS_CONTROL_OUTPUT_COMPONENTS''"
| "glenum_name GL_MAX_TESS_EVALUATION_OUTPUT_COMPONENTS = ''GL_MAX_TESS_EVALUATION_OUTPUT_COMPONENTS''"
| "glenum_name GL_MAX_GEOMETRY_OUTPUT_COMPONENTS = ''GL_MAX_GEOMETRY_OUTPUT_COMPONENTS''"
| "glenum_name GL_MAX_VERTEX_TEXTURE_IMAGE_UNITS = ''GL_MAX_VERTEX_TEXTURE_IMAGE_UNITS''"
| "glenum_name GL_MAX_TESS_CONTROL_TEXTURE_IMAGE_UNITS = ''GL_MAX_TESS_CONTROL_TEXTURE_IMAGE_UNITS''"
| "glenum_name GL_MAX_TESS_EVALUATION_TEXTURE_IMAGE_UNITS = ''GL_MAX_TESS_EVALUATION_TEXTURE_IMAGE_UNITS''"
| "glenum_name GL_MAX_GEOMETRY_TEXTURE_IMAGE_UNITS = ''GL_MAX_GEOMETRY_TEXTURE_IMAGE_UNITS''"
| "glenum_name GL_MAX_TEXTURE_IMAGE_UNITS = ''GL_MAX_TEXTURE_IMAGE_UNITS''"
| "glenum_name GL_MAX_COMPUTE_TEXTURE_IMAGE_UNITS = ''GL_MAX_COMPUTE_TEXTURE_IMAGE_UNITS''"
| "glenum_name GL_MAX_COMBINED_TEXTURE_IMAGE_UNITS = ''GL_MAX_COMBINED_TEXTURE_IMAGE_UNITS''"

text \<open>A line of the limits section that shows the raw value of one query next to
  that query's identifier.\<close>

definition raw_query_line :: "gl_context \<Rightarrow> limit_line \<Rightarrow> bool" where
  "raw_query_line gl l =
     (\<exists>label p. l = Limit label (getI gl p) (glenum_name p))"

section \<open>Sample inputs\<close>

text \<open>Plain decimal numerals below \<open>2^32\<close>, on which \<open>QString::toUInt\<close> succeeds;
  everything else is rejected here.\<close>

definition digit_value :: "char \<Rightarrow> int option" where
  "digit_value = map_of
     [(CHR ''0'', 0), (CHR ''1'', 1), (CHR ''2'', 2), (CHR ''3'', 3), (CHR ''4'', 4),
      (CHR ''5'', 5), (CHR ''6'', 6), (CHR ''7'', 7), (CHR ''8'', 8), (CHR ''9'', 9)]"

definition decimal_toUInt :: "string \<Rightarrow> 32 word option" where
  "decimal_toUInt s =
     (if s = [] then None
      else case those (map digit_value s) of
             None \<Rightarrow> None
           | Some ds \<Rightarrow>
               let n = foldl (\<lambda>a d. 10 * a + d) 0 ds
               in if n < 2 ^ 32 then Some (word_of_int n) else None)"

text \<open>A desktop context of the given version and profile.\<close>

definition sample_context :: "int \<Rightarrow> int \<Rightarrow> opengl_profile \<Rightarrow> gl_context" where
  "sample_context major minor prof =
     \<lparr>create = True, isOpenGLES = False,
      format = \<lparr>renderableType = OpenGL, profile = prof,
                majorVersion = major, minorVersion = minor\<rparr>,
      makeCurrent = True,
      extensions = dlist_of_list [''GL_EXT_texture'', '''', ''GL_ARB_sync''],
      glGetIntegerv =
        (\<lambda>p. if p = GL_MAX_DRAW_BUFFERS then Some 8
             else if p = GL_MAX_VERTEX_ATTRIBS then Some 16
             else if p = GL_MAX_TEXTURE_SIZE then Some 16384
             else None),
      glGetString = (\<lambda>p. ''Sample'')\<rparr>"


text \<open>A context object whose \<open>create()\<close> returned false.\<close>

definition failed_context :: gl_context where
  "failed_context = (sample_context 0 0 NoProfile)\<lparr>create := False\<rparr>"

text \<open>A driver that grants a 4.6 context of the requested profile to every request
  of at most 4.6 and refuses higher versions, and a driver that refuses everything.\<close>

definition driver_4_6 :: driver where
  "driver_4_6 fmt =
     (if majorVersion fmt < 4 \<or> (majorVersion fmt = 4 \<and> minorVersion fmt \<le> 6)
      then sample_context 4 6 (profile fmt)
      else failed_context)"

definition driver_none :: driver where
  "driver_none fmt = failed_context"

definition no_options :: options where
  "no_options =
     \<lparr>opt_type = None, opt_profile = None, opt_version = None, opt_extensions = False\<rparr>"

text \<open>The command line without options and its configuration; two command lines
  that pin a version, and the configuration of the first.\<close>

definition default_config :: config where
  "default_config =
     \<lparr>cfg_format = \<lparr>renderableType = DefaultRenderableType, profile = CoreProfile,
                     majorVersion = 2, minorVersion = 0\<rparr>,
      tryMajorMax = 4, tryMinorMax = 9, tryMajorMin = 3, tryMinorMin = 2\<rparr>"

definition pinned_3_3 :: options where
  "pinned_3_3 = no_options\<lparr>opt_version := Some ''3.3''\<rparr>"

definition pinned_huge :: options where
  "pinned_huge = no_options\<lparr>opt_version := Some ''4294967295.0''\<rparr>"

definition config_3_3 :: config where
  "config_3_3 =
     \<lparr>cfg_format = \<lparr>renderableType = DefaultRenderableType, profile = CoreProfile,
                     majorVersion = 2, minorVersion = 0\<rparr>,
      tryMajorMax = 3, tryMinorMax = 3, tryMajorMin = 3, tryMinorMin = 3\<rparr>"

text \<open>Command lines with one malformed value each.\<close>

definition type_foo :: options where
  "type_foo = no_options\<lparr>opt_type := Some ''foo''\<rparr>"

definition profile_es :: options where
  "profile_es = no_options\<lparr>opt_type := Some ''OpenGL'', opt_profile := Some ''es''\<rparr>"

definition version_4 :: options where
  "version_4 = no_options\<lparr>opt_version := Some ''4''\<rparr>"

text \<open>The configuration of the second pinned command line.\<close>

definition config_huge :: config where
  "config_huge =
     \<lparr>cfg_format = \<lparr>renderableType = DefaultRenderableType, profile = CoreProfile,
                     majorVersion = 2, minorVersion = 0\<rparr>,
      tryMajorMax = - 1, tryMinorMax = 0, tryMajorMin = - 1, tryMinorMin = 0\<rparr>"

text \<open>A driver that creates a 4.5 context of the requested profile whatever version
  is requested.\<close>

definition driver_4_5 :: driver where
  "driver_4_5 fmt = sample_context 4 5 (profile fmt)"



section \<open>Lists of trial versions and traces\<close>

lemma attempted_nonempty: "ts \<noteq> [] \<Longrightarrow> attempted P ts \<noteq> []"
  by (cases ts) auto

lemma attempted_Nil_iff: "attempted P ts = [] \<longleftrightarrow> ts = []"
  by (cases ts) auto

lemma attempted_single: "attempted P [t] = [t]"
  by simp

lemma set_attempted: "set (attempted P ts) \<subseteq> set ts"
  by (induction ts) auto

lemma last_attempted_in: "ts \<noteq> [] \<Longrightarrow> last (attempted P ts) \<in> set ts"
  using set_attempted[of P ts] attempted_nonempty[of ts P] last_in_set by blast

lemma hd_attempted: "ts \<noteq> [] \<Longrightarrow> hd (attempted P ts) = hd ts"
  by (cases ts) auto

lemma attempted_prefix: "prefix (attempted P ts) ts"
  by (induction ts) auto

lemma attempted_all_failed:
  "\<not> P (last (attempted P ts)) \<Longrightarrow> attempted P ts = ts"
  by (induction ts) (auto simp add: attempted_Nil_iff split: if_splits)

lemma sorted_wrt_attempted: "sorted_wrt R ts \<Longrightarrow> sorted_wrt R (attempted P ts)"
proof -
  assume s: "sorted_wrt R ts"
  from attempted_prefix[of P ts] obtain rest where "ts = attempted P ts @ rest"
    by (auto simp add: prefix_def)
  with s have "sorted_wrt R (attempted P ts @ rest)" by simp
  then show ?thesis by (simp add: sorted_wrt_append)
qed

lemma attempted_steps:
  "descent a b ts \<Longrightarrow> Suc i < length (attempted P ts) \<Longrightarrow>
     \<not> P (attempted P ts ! i) \<and> step_down a b (attempted P ts ! i) = Some (attempted P ts ! Suc i)"
proof (induction a b ts arbitrary: i rule: descent.induct)
  case (1 a b)
  then show ?case by simp
next
  case (2 a b t)
  then show ?case by (simp split: if_splits)
next
  case (3 a b t t' ts)
  from 3(3) have nt: "\<not> P t" by (auto split: if_splits)
  then have att: "attempted P (t # t' # ts) = t # attempted P (t' # ts)" by simp
  have hd': "attempted P (t' # ts) ! 0 = t'" by simp
  show ?case
  proof (cases i)
    case 0
    with 3(2) nt hd' show ?thesis by (simp only: att nth_Cons_0 nth_Cons_Suc) simp
  next
    case (Suc j)
    with 3(3) att have "Suc j < length (attempted P (t' # ts))" by simp
    from 3(1)[OF _ this] 3(2) have
      "\<not> P (attempted P (t' # ts) ! j) \<and>
       step_down a b (attempted P (t' # ts) ! j) = Some (attempted P (t' # ts) ! Suc j)"
      by simp
    with Suc nt show ?thesis by simp
  qed
qed

lemma descent_last: "descent a b ts \<Longrightarrow> step_down a b (last ts) = None"
  by (induction a b ts rule: descent.induct) simp_all

lemma descent_default: "descent 3 2 default_trials"
  by (simp add: default_trials_def step_down_def)

lemma version_le_trans: "version_le a b \<Longrightarrow> version_le b c \<Longrightarrow> version_le a c"
  by (auto simp add: version_le_def)

lemma default_trials_floor: "t \<in> set default_trials \<Longrightarrow> version_le (3, 2) t"
  by (auto simp add: default_trials_def version_le_def)

lemma default_trials_descending: "sorted_wrt (\<lambda>a b. version_less b a) default_trials"
  by (simp add: default_trials_def version_less_def)

lemma trials_append: "trials (xs @ ys) = trials xs @ trials ys"
  by (induction xs rule: trials.induct) simp_all

lemma trials_retry_events: "trials (retry_events fmt h ts) = ts"
  by (induction ts arbitrary: h) simp_all

lemma released_before_new_retry:
  "released_before_new {} (retry_events fmt h ts @ rest) = released_before_new {} rest"
  by (induction ts arbitrary: h) simp_all

lemma foldl_exec_retry:
  "foldl exec {} (retry_events fmt h ts @ rest) = foldl exec {} rest"
  by (induction ts arbitrary: h) simp_all

lemma foldl_exec_retry_only: "foldl exec {} (retry_events fmt h ts) = {}"
  using foldl_exec_retry[of fmt h ts "[]"] by simp

section \<open>The negotiation loop along a descent\<close>

lemma negotiate_success:
  "succeeds drv fmt (M, m) \<Longrightarrow>
   negotiate drv fmt majorMin minorMin M m h tr =
     Some \<lparr>neg_ok = True,
           neg_context = drv (fmt\<lparr>majorVersion := M, minorVersion := m\<rparr>),
           neg_handle = h,
           neg_trace = tr @ [NewSurface h, NewContext h (fmt\<lparr>majorVersion := M, minorVersion := m\<rparr>)]\<rparr>"
  by (subst negotiate.simps) (simp add: succeeds_def Let_def)

lemma negotiate_floor:
  "\<not> succeeds drv fmt (M, m) \<Longrightarrow> step_down majorMin minorMin (M, m) = None \<Longrightarrow>
   negotiate drv fmt majorMin minorMin M m h tr =
     Some \<lparr>neg_ok = False,
           neg_context = drv (fmt\<lparr>majorVersion := M, minorVersion := m\<rparr>),
           neg_handle = h,
           neg_trace = tr @ [NewSurface h, NewContext h (fmt\<lparr>majorVersion := M, minorVersion := m\<rparr>)]\<rparr>"
  by (subst negotiate.simps) (simp add: succeeds_def step_down_def Let_def split: if_splits)

lemma negotiate_retry:
  "\<not> succeeds drv fmt (M, m) \<Longrightarrow> step_down majorMin minorMin (M, m) = Some (M', m') \<Longrightarrow>
   negotiate drv fmt majorMin minorMin M m h tr =
   negotiate drv fmt majorMin minorMin M' m' (Suc h)
     (tr @ [NewSurface h, NewContext h (fmt\<lparr>majorVersion := M, minorVersion := m\<rparr>),
            DeleteContext h, DeleteSurface h])"
  by (subst negotiate.simps) (auto simp add: succeeds_def step_down_def Let_def split: if_splits)

lemma negotiate_descent:
  "descent majorMin minorMin ts \<Longrightarrow>
   negotiate drv fmt majorMin minorMin (fst (hd ts)) (snd (hd ts)) h tr =
     (let as = attempted (succeeds drv fmt) ts;
          t = last as;
          k = h + length as - 1;
          f = fmt\<lparr>majorVersion := fst t, minorVersion := snd t\<rparr>
      in Some \<lparr>neg_ok = succeeds drv fmt t, neg_context = drv f, neg_handle = k,
               neg_trace = tr @ retry_events fmt h (butlast as) @ [NewSurface k, NewContext k f]\<rparr>)"
proof (induction majorMin minorMin ts arbitrary: h tr rule: descent.induct)
  case (1 majorMin minorMin)
  then show ?case by simp
next
  case (2 majorMin minorMin t)
  obtain M m where t: "t = (M, m)" by (cases t)
  from 2 show ?case
    by (cases "succeeds drv fmt t") (simp_all add: t negotiate_success negotiate_floor Let_def)
next
  case (3 majorMin minorMin t t' ts)
  obtain M m where t: "t = (M, m)" by (cases t)
  obtain M' m' where t': "t' = (M', m')" by (cases t')
  from 3(2) have step: "step_down majorMin minorMin (M, m) = Some (M', m')"
    and rest: "descent majorMin minorMin (t' # ts)" by (simp_all add: t t')
  show ?case
  proof (cases "succeeds drv fmt t")
    case True
    then show ?thesis by (simp add: t negotiate_success Let_def)
  next
    case False
    have ne: "attempted (succeeds drv fmt) (t' # ts) \<noteq> []"
      by (rule attempted_nonempty) simp
    from False have "negotiate drv fmt majorMin minorMin (fst (hd (t # t' # ts))) (snd (hd (t # t' # ts))) h tr
        = negotiate drv fmt majorMin minorMin (fst (hd (t' # ts))) (snd (hd (t' # ts))) (Suc h)
           (tr @ [NewSurface h, NewContext h (fmt\<lparr>majorVersion := M, minorVersion := m\<rparr>),
            DeleteContext h, DeleteSurface h])"
      using step by (simp add: t t' negotiate_retry)
    also note 3(1)[OF rest]
    finally show ?thesis using False ne
      by (simp add: Let_def t butlast_append)
  qed
qed

section \<open>The configurations that the command line yields\<close>

lemma process_command_line_cases:
  assumes "process_command_line toUInt opts = Inr cfg"
  shows "(opt_version opts = None \<and> tryMajorMax cfg = 4 \<and> tryMinorMax cfg = 9
            \<and> tryMajorMin cfg = 3 \<and> tryMinorMin cfg = 2)
       \<or> (\<exists>v a b major minor. opt_version opts = Some v \<and> split (CHR ''.'') v = [a, b]
            \<and> toUInt a = Some major \<and> toUInt b = Some minor
            \<and> tryMajorMax cfg = sint major \<and> tryMinorMax cfg = sint minor
            \<and> tryMajorMin cfg = sint major \<and> tryMinorMin cfg = sint minor)"
  using assms
  by (auto simp add: process_command_line_def process_version_def
           split: sum.splits option.splits list.splits)

lemma config_trials_nonempty: "config_trials cfg \<noteq> []"
  by (simp add: config_trials_def default_trials_def)

lemma config_trials_unconstrained:
  assumes "process_command_line toUInt opts = Inr cfg" and "opt_version opts = None"
  shows "config_trials cfg = default_trials"
  using process_command_line_cases[OF assms(1)] assms(2)
  by (auto simp add: config_trials_def)

lemma config_descent:
  assumes "process_command_line toUInt opts = Inr cfg"
  shows "descent (tryMajorMin cfg) (tryMinorMin cfg) (config_trials cfg)"
    and "hd (config_trials cfg) = (tryMajorMax cfg, tryMinorMax cfg)"
    and "\<forall>t \<in> set (config_trials cfg). version_le (tryMajorMin cfg, tryMinorMin cfg) t"
    and "last (config_trials cfg) = (tryMajorMin cfg, tryMinorMin cfg)"
proof -
  from process_command_line_cases[OF assms]
  consider (default) "tryMajorMax cfg = 4" "tryMinorMax cfg = 9"
                     "tryMajorMin cfg = 3" "tryMinorMin cfg = 2"
    | (pinned) "tryMajorMax cfg = tryMajorMin cfg" "tryMinorMax cfg = tryMinorMin cfg"
    by auto
  then have "descent (tryMajorMin cfg) (tryMinorMin cfg) (config_trials cfg)
      \<and> hd (config_trials cfg) = (tryMajorMax cfg, tryMinorMax cfg)
      \<and> (\<forall>t \<in> set (config_trials cfg). version_le (tryMajorMin cfg, tryMinorMin cfg) t)
      \<and> last (config_trials cfg) = (tryMajorMin cfg, tryMinorMin cfg)"
  proof cases
    case default
    then have "config_trials cfg = default_trials"
      by (simp add: config_trials_def)
    moreover have "hd default_trials = (4, 9)" "last default_trials = (3, 2)"
      by (simp_all add: default_trials_def)
    ultimately show ?thesis
      using default by (simp add: descent_default default_trials_floor)
  next
    case pinned
    then have "config_trials cfg = [(tryMajorMin cfg, tryMinorMin cfg)]"
      by (simp add: config_trials_def)
    then show ?thesis
      using pinned by (simp add: step_down_def version_le_def)
  qed
  then show "descent (tryMajorMin cfg) (tryMinorMin cfg) (config_trials cfg)"
    and "hd (config_trials cfg) = (tryMajorMax cfg, tryMinorMax cfg)"
    and "\<forall>t \<in> set (config_trials cfg). version_le (tryMajorMin cfg, tryMinorMin cfg) t"
    and "last (config_trials cfg) = (tryMajorMin cfg, tryMinorMin cfg)"
    by simp_all
qed

lemma process_command_line_malformed_type:
  "malformed_type opts \<Longrightarrow> process_command_line toUInt opts = Inl ''invalid type''"
  by (auto simp add: process_command_line_def process_type_def malformed_type_def
        split: option.splits)

lemma process_command_line_malformed_profile:
  "\<not> malformed_type opts \<Longrightarrow> malformed_profile opts \<Longrightarrow>
     process_command_line toUInt opts = Inl ''invalid profile''"
  by (auto simp add: process_command_line_def process_type_def process_profile_def
        malformed_type_def malformed_profile_def Let_def split: option.splits)

lemma process_command_line_malformed_version:
  "\<not> malformed_type opts \<Longrightarrow> \<not> malformed_profile opts \<Longrightarrow> malformed_version toUInt opts \<Longrightarrow>
     process_command_line toUInt opts = Inl ''invalid version''"
  by (auto simp add: process_command_line_def process_type_def process_profile_def
        process_version_def malformed_type_def malformed_profile_def malformed_version_def
        Let_def split: option.splits list.splits)

lemma process_command_line_Inl:
  "process_command_line toUInt opts = Inl msg \<Longrightarrow>
     msg = ''invalid type'' \<or> msg = ''invalid profile'' \<or> msg = ''invalid version''"
  by (auto simp add: process_command_line_def process_type_def process_profile_def
        process_version_def Let_def split: option.splits list.splits sum.splits if_splits)

section \<open>Runs of the program\<close>

lemma attempt_ok_iff:
  "attempt_ok c M m \<longleftrightarrow>
     create c \<and> version_le (M, m) (majorVersion (format c), minorVersion (format c))"
  by (auto simp add: attempt_ok_def version_le_def)

lemma version_less_iff: "version_less a b \<longleftrightarrow> \<not> version_le b a"
  by (auto simp add: version_less_def version_le_def)

lemma succeeds_iff:
  "succeeds drv fmt t \<longleftrightarrow>
     create (drv (trial_format fmt t))
     \<and> version_le t (granted_version (drv (trial_format fmt t)))"
  by (cases t) (simp add: succeeds_def attempt_ok_iff trial_format_def granted_version_def)

lemma not_succeeds_iff:
  "\<not> succeeds drv fmt t \<longleftrightarrow>
     \<not> create (drv (trial_format fmt t))
     \<or> version_less (granted_version (drv (trial_format fmt t))) t"
  by (auto simp add: succeeds_iff version_less_iff)

lemma negotiate_config:
  assumes cfg: "process_command_line toUInt opts = Inr cfg"
  shows "negotiate drv (cfg_format cfg) (tryMajorMin cfg) (tryMinorMin cfg)
          (tryMajorMax cfg) (tryMinorMax cfg) 0 [] =
     (let as = attempted (succeeds drv (cfg_format cfg)) (config_trials cfg);
          t = last as;
          k = length as - 1;
          f = (cfg_format cfg)\<lparr>majorVersion := fst t, minorVersion := snd t\<rparr>
      in Some \<lparr>neg_ok = succeeds drv (cfg_format cfg) t, neg_context = drv f, neg_handle = k,
               neg_trace = retry_events (cfg_format cfg) 0 (butlast as) @ [NewSurface k, NewContext k f]\<rparr>)"
proof -
  have "negotiate drv (cfg_format cfg) (tryMajorMin cfg) (tryMinorMin cfg)
          (tryMajorMax cfg) (tryMinorMax cfg) 0 []
      = negotiate drv (cfg_format cfg) (tryMajorMin cfg) (tryMinorMin cfg)
          (fst (hd (config_trials cfg))) (snd (hd (config_trials cfg))) 0 []"
    by (simp add: config_descent(2)[OF cfg])
  also note negotiate_descent[OF config_descent(1)[OF cfg]]
  finally show ?thesis by (simp add: Let_def)
qed

lemma main_negotiated:
  assumes cfg: "process_command_line toUInt opts = Inr cfg"
  shows "main toUInt drv opts =
     (let as = attempted (succeeds drv (cfg_format cfg)) (config_trials cfg);
          t = last as;
          k = length as - 1;
          f = (cfg_format cfg)\<lparr>majorVersion := fst t, minorVersion := snd t\<rparr>;
          tr = retry_events (cfg_format cfg) 0 (butlast as) @ [NewSurface k, NewContext k f]
      in if \<not> succeeds drv (cfg_format cfg) t then
           Some \<lparr>stdout = [], stderr = [''cannot create context''], exit_code = 1, trace = tr\<rparr>
         else if \<not> makeCurrent (drv f) then
           Some \<lparr>stdout = [], stderr = [''cannot make context current''], exit_code = 1,
                 trace = tr @ [MakeCurrent k]\<rparr>
         else
           Some \<lparr>stdout = report (opt_extensions opts) (drv f), stderr = [], exit_code = 0,
                 trace = tr @ [MakeCurrent k]\<rparr>)"
proof -
  have "negotiate drv (cfg_format cfg) (tryMajorMin cfg) (tryMinorMin cfg)
          (tryMajorMax cfg) (tryMinorMax cfg) 0 []
      = negotiate drv (cfg_format cfg) (tryMajorMin cfg) (tryMinorMin cfg)
          (fst (hd (config_trials cfg))) (snd (hd (config_trials cfg))) 0 []"
    by (simp add: config_descent(2)[OF cfg])
  also note negotiate_descent[OF config_descent(1)[OF cfg]]
  finally show ?thesis
    by (simp add: main_def cfg Let_def)
qed

lemma main_after_negotiation:
  assumes "process_command_line toUInt opts = Inr cfg"
    and "negotiate drv (cfg_format cfg) (tryMajorMin cfg) (tryMinorMin cfg)
               (tryMajorMax cfg) (tryMinorMax cfg) 0 [] = Some n"
  shows "\<exists>out. main toUInt drv opts = Some out
           \<and> (stdout out \<noteq> [] \<longrightarrow> exit_code out = 0)
           \<and> (exit_code out = 0 \<longrightarrow>
                 neg_ok n \<and> stdout out = report (opt_extensions opts) (neg_context n))"
  using assms by (simp add: main_def)

lemma trials_main:
  assumes cfg: "process_command_line toUInt opts = Inr cfg"
  shows "\<exists>out. main toUInt drv opts = Some out
           \<and> trials (trace out) = attempted (succeeds drv (cfg_format cfg)) (config_trials cfg)"
proof -
  let ?as = "attempted (succeeds drv (cfg_format cfg)) (config_trials cfg)"
  have "?as \<noteq> []"
    by (rule attempted_nonempty) (rule config_trials_nonempty)
  then have "butlast ?as @ [last ?as] = ?as" by simp
  then show ?thesis
    by (simp add: main_negotiated[OF cfg] Let_def trials_append trials_retry_events)
qed

text \<open>What a pinned version does: both bounds hold the parsed \<open>unsigned int\<close>
  read as an \<open>int\<close>, and the one context creation is at that version.\<close>

lemma pinned_version_bounds:
  assumes v: "opt_version opts = Some v"
    and s: "split (CHR ''.'') v = [a, b]"
    and a: "toUInt a = Some major"
    and b: "toUInt b = Some minor"
    and cfg: "process_command_line toUInt opts = Inr cfg"
  shows "tryMajorMax cfg = sint major" "tryMinorMax cfg = sint minor"
    "tryMajorMin cfg = sint major" "tryMinorMin cfg = sint minor"
    "\<exists>out. main toUInt drv opts = Some out \<and> trials (trace out) = [(sint major, sint minor)]"
proof -
  from process_command_line_cases[OF cfg] v s a b
  show bounds: "tryMajorMax cfg = sint major" "tryMinorMax cfg = sint minor"
    "tryMajorMin cfg = sint major" "tryMinorMin cfg = sint minor"
    by auto
  then have "config_trials cfg = [(sint major, sint minor)]"
    by (simp add: config_trials_def)
  with trials_main[OF cfg, of drv]
  show "\<exists>out. main toUInt drv opts = Some out \<and> trials (trace out) = [(sint major, sint minor)]"
    by (simp only: attempted_single)
qed

lemma main_trials_outcome:
  assumes cfg: "process_command_line toUInt opts = Inr cfg"
  shows "\<exists>out. main toUInt drv opts = Some out
           \<and> trials (trace out) = attempted (succeeds drv (cfg_format cfg)) (config_trials cfg)
           \<and> (if succeeds drv (cfg_format cfg)
                    (last (attempted (succeeds drv (cfg_format cfg)) (config_trials cfg)))
               then stderr out \<noteq> [''cannot create context'']
               else stderr out = [''cannot create context''] \<and> exit_code out = 1)"
proof -
  let ?as = "attempted (succeeds drv (cfg_format cfg)) (config_trials cfg)"
  have "?as \<noteq> []"
    by (rule attempted_nonempty) (rule config_trials_nonempty)
  then have "butlast ?as @ [last ?as] = ?as" by simp
  then show ?thesis
    by (simp add: main_negotiated[OF cfg] Let_def trials_append trials_retry_events)
qed

lemma main_trace:
  assumes cfg: "process_command_line toUInt opts = Inr cfg"
  shows "\<exists>out. main toUInt drv opts = Some out
     \<and> trace out =
         retry_events (cfg_format cfg) 0
           (butlast (attempted (succeeds drv (cfg_format cfg)) (config_trials cfg)))
         @ [NewSurface (length (butlast (attempted (succeeds drv (cfg_format cfg)) (config_trials cfg)))),
            NewContext (length (butlast (attempted (succeeds drv (cfg_format cfg)) (config_trials cfg))))
              ((cfg_format cfg)
                 \<lparr>majorVersion :=
                     fst (last (attempted (succeeds drv (cfg_format cfg)) (config_trials cfg))),
                  minorVersion :=
                     snd (last (attempted (succeeds drv (cfg_format cfg)) (config_trials cfg)))\<rparr>)]
         @ (if stderr out = [''cannot create context''] then []
            else [MakeCurrent
                    (length (butlast (attempted (succeeds drv (cfg_format cfg)) (config_trials cfg))))])"
  by (simp add: main_negotiated[OF cfg] Let_def)

lemma report_nonempty: "report isSet context \<noteq> []"
  by (simp add: report_def general_info_def)

lemma main_exit:
  assumes cfg: "process_command_line toUInt opts = Inr cfg"
  shows "\<exists>out. main toUInt drv opts = Some out
     \<and> ((exit_code out = 1 \<and> stdout out = []
           \<and> (stderr out = [''cannot create context'']
               \<or> stderr out = [''cannot make context current'']))
        \<or> (exit_code out = 0 \<and> stderr out = []
           \<and> (\<exists>context. stdout out = report (opt_extensions opts) context)))"
  by (simp add: main_negotiated[OF cfg] Let_def) blast

section \<open>The lines of the report\<close>







lemma append_le_append: "(p :: string) @ x \<le> p @ y \<longleftrightarrow> x \<le> y"
  by (induction p) simp_all

lemma sorted_map_append: "sorted (map ((@) (p :: string)) xs) = sorted xs"
  by (induction xs) (simp_all add: append_le_append)

lemma sortedExtensions_set:
  "set (sortedExtensions c) = set (list_of_dlist (extensions c)) - {[]}"
  by (auto simp add: sortedExtensions_def)

lemma sortedExtensions_sorted: "sorted (sortedExtensions c)"
  by (simp add: sortedExtensions_def)

lemma sortedExtensions_distinct: "distinct (sortedExtensions c)"
  by (simp add: sortedExtensions_def)

lemma sortedExtensions_strict: "sorted_wrt (<) (sortedExtensions c)"
  using sortedExtensions_sorted sortedExtensions_distinct
  by (simp add: strict_sorted_iff)

lemma sint_times_4:
  assumes "- (2 ^ 29) \<le> sint (v :: 32 word)" and "sint v < 2 ^ 29"
  shows "sint (4 * v) = 4 * sint v"
proof -
  have "sint (4 * v) = signed_take_bit 31 (sint (4 :: 32 word) * sint v)"
    by (simp add: sint_word_ariths)
  also have "sint (4 :: 32 word) = 4" by simp
  also have "signed_take_bit 31 (4 * sint v) = 4 * sint v"
    using assms by (intro signed_take_bit_int_eq_self) simp_all
  finally show ?thesis .
qed

lemma raw_query_lineI: "raw_query_line gl (Limit label (getI gl p) (glenum_name p))"
  by (auto simp add: raw_query_line_def)

lemma limits_lines:
  "\<forall>l \<in> set (limits gl).
     (\<exists>s. l = Heading s) \<or> raw_query_line gl l
     \<or> l = Limit ''    Vertex:       '' (4 * getI gl GL_MAX_VERTEX_ATTRIBS)
             (''4*'' @ glenum_name GL_MAX_VERTEX_ATTRIBS)
     \<or> l = Limit ''    Fragment:     '' (4 * getI gl GL_MAX_DRAW_BUFFERS)
             (''4*'' @ glenum_name GL_MAX_DRAW_BUFFERS)"
  unfolding limits_def glenum_name.simps[symmetric]
  by (simp add: raw_query_lineI del: glenum_name.simps)


text \<open>The forms of the lines of the limits section: a heading, the value of one
  query next to its identifier, or one of the two lines that show a product.\<close>

lemma limit_line_forms:
  "\<forall>l \<in> set (limits gl).
       (\<exists>s. l = Heading s) \<or> raw_query_line gl l
     \<or> l = Limit ''    Vertex:       '' (4 * getI gl GL_MAX_VERTEX_ATTRIBS)
             ''4*GL_MAX_VERTEX_ATTRIBS''
     \<or> l = Limit ''    Fragment:     '' (4 * getI gl GL_MAX_DRAW_BUFFERS)
             ''4*GL_MAX_DRAW_BUFFERS''"
  using limits_lines[of gl] by simp

section \<open>The program on the sample inputs\<close>

lemmas process_defs =
  process_command_line_def process_type_def process_profile_def process_version_def
  default_surface_format_def

lemma decimal_toUInt_3: "decimal_toUInt ''3'' = Some 3"
  by (simp add: decimal_toUInt_def digit_value_def)

lemma process_no_options: "process_command_line decimal_toUInt no_options = Inr default_config"
  by (simp add: process_defs no_options_def default_config_def)

lemma process_pinned_3_3: "process_command_line decimal_toUInt pinned_3_3 = Inr config_3_3"
  by (simp add: process_defs pinned_3_3_def no_options_def config_3_3_def decimal_toUInt_3)

lemma cfg_format_default:
  "cfg_format default_config =
     \<lparr>renderableType = DefaultRenderableType, profile = CoreProfile,
      majorVersion = 2, minorVersion = 0\<rparr>"
  by (simp add: default_config_def)

lemma attempted_driver_4_6:
  "attempted (succeeds driver_4_6 (cfg_format default_config)) (config_trials default_config)
     = [(4, 9), (4, 8), (4, 7), (4, 6)]"
  by (simp add: succeeds_def attempt_ok_def driver_4_6_def sample_context_def
        failed_context_def default_trials_def config_trials_def default_config_def)

lemma main_driver_4_6:
  "main decimal_toUInt driver_4_6 no_options
   = Some \<lparr>stdout = report False (sample_context 4 6 CoreProfile), stderr = [], exit_code = 0,
           trace = retry_events (cfg_format default_config) 0 [(4, 9), (4, 8), (4, 7)]
              @ [NewSurface 3,
                 NewContext 3 \<lparr>renderableType = DefaultRenderableType, profile = CoreProfile,
                               majorVersion = 4, minorVersion = 6\<rparr>,
                 MakeCurrent 3]\<rparr>"
  unfolding main_negotiated[OF process_no_options] attempted_driver_4_6 Let_def
  by (simp add: succeeds_def attempt_ok_def driver_4_6_def sample_context_def cfg_format_default
       no_options_def)

lemma attempted_driver_none:
  "attempted (succeeds driver_none (cfg_format default_config)) (config_trials default_config)
     = default_trials"
  by (simp add: succeeds_def attempt_ok_def driver_none_def sample_context_def
        failed_context_def default_trials_def config_trials_def default_config_def)

lemma trials_driver_none:
  "\<exists>out. main decimal_toUInt driver_none no_options = Some out
     \<and> trials (trace out) = default_trials"
  using trials_main[OF process_no_options, of driver_none]
  by (simp only: attempted_driver_none)

lemma main_driver_none_pinned_3_3:
  "main decimal_toUInt driver_none pinned_3_3 =
     Some \<lparr>stdout = [], stderr = [''cannot create context''], exit_code = 1,
           trace = [NewSurface 0,
                    NewContext 0 \<lparr>renderableType = DefaultRenderableType, profile = CoreProfile,
                                  majorVersion = 3, minorVersion = 3\<rparr>]\<rparr>"
  by (simp add: main_negotiated[OF process_pinned_3_3] Let_def config_trials_def config_3_3_def
        succeeds_def attempt_ok_def driver_none_def failed_context_def sample_context_def)

lemma compare_ci_samples:
  "\<not> compare_ci ''foo'' ''opengl''" "\<not> compare_ci ''foo'' ''opengles''"
  "compare_ci ''OpenGL'' ''opengl''"
  "\<not> compare_ci ''es'' ''core''" "\<not> compare_ci ''es'' ''compat''"
  "\<not> compare_ci ''es'' ''compatibility''"
  by (simp_all add: compare_ci_def toLower_def)



lemma sortedExtensions_sample:
  "sortedExtensions (sample_context 4 6 CoreProfile) = [''GL_ARB_sync'', ''GL_EXT_texture'']"
  by (simp add: sortedExtensions_def sample_context_def)

lemma process_pinned_huge: "process_command_line decimal_toUInt pinned_huge = Inr config_huge"
  by (simp add: process_defs pinned_huge_def no_options_def config_huge_def
        decimal_toUInt_def digit_value_def)

lemma main_driver_4_6_pinned_huge:
  "main decimal_toUInt driver_4_6 pinned_huge =
     Some \<lparr>stdout = report False (sample_context 4 6 CoreProfile), stderr = [], exit_code = 0,
           trace = [NewSurface 0,
                    NewContext 0 \<lparr>renderableType = DefaultRenderableType, profile = CoreProfile,
                                  majorVersion = - 1, minorVersion = 0\<rparr>,
                    MakeCurrent 0]\<rparr>"
  unfolding main_negotiated[OF process_pinned_huge]
  by (simp add: Let_def config_trials_def config_huge_def succeeds_def attempt_ok_def
        driver_4_6_def sample_context_def pinned_huge_def no_options_def)

lemma attempted_driver_4_5:
  "attempted (succeeds driver_4_5 (cfg_format default_config)) (config_trials default_config)
     = [(4, 9), (4, 8), (4, 7), (4, 6), (4, 5)]"
  by (simp add: succeeds_def attempt_ok_def driver_4_5_def sample_context_def
        default_trials_def config_trials_def default_config_def)

lemma trials_driver_4_5:
  "\<exists>out. main decimal_toUInt driver_4_5 no_options = Some out
     \<and> trials (trace out) = [(4, 9), (4, 8), (4, 7), (4, 6), (4, 5)]"
  using trials_main[OF process_no_options, of driver_4_5]
  by (simp only: attempted_driver_4_5)

lemma driver_4_5_grants:
  "create (driver_4_5 fmt)" "granted_version (driver_4_5 fmt) = (4, 5)"
  by (simp_all add: driver_4_5_def sample_context_def granted_version_def)

lemma driver_none_refuses: "\<not> create (driver_none fmt)"
  by (simp add: driver_none_def failed_context_def)





section \<open>The claims\<close>

text \<open>
  Claim C1. For every run that gets past the command line the negotiation returns.
  Its context creations start at (\<open>tryMajorMax\<close>, \<open>tryMinorMax\<close>). Every creation
  but the last failed, that is, \<open>create()\<close> returned false or the created context
  reports a version below the trial version, and was followed by the creation at
  the version that the step rule gives (minor 0 of a major above the floor major goes
  to minor 9 of the previous major, otherwise the minor goes down by one). The last
  creation either succeeded, that is, the context was created with a version not
  below the trial version, or it failed at the floor (\<open>tryMajorMin\<close>,
  \<open>tryMinorMin\<close>), where the rule stops, and the run ends with
  \<open>cannot create context\<close>. Without a version option the versions tried are a prefix
  of 4.9, 4.8, ..., 4.0, 3.9, ..., 3.2, strictly descending, and all eighteen when
  none succeeds.
\<close>

theorem negotiation_steps_down:
  assumes cfg: "process_command_line toUInt opts = Inr cfg"
  shows "\<exists>out ts. main toUInt drv opts = Some out \<and> trials (trace out) = ts \<and> ts \<noteq> []
     \<and> hd ts = (tryMajorMax cfg, tryMinorMax cfg)
     \<and> (\<forall>i. Suc i < length ts \<longrightarrow>
            (\<not> create (drv (trial_format (cfg_format cfg) (ts ! i)))
             \<or> version_less (granted_version (drv (trial_format (cfg_format cfg) (ts ! i))))
                  (ts ! i))
          \<and> step_down (tryMajorMin cfg) (tryMinorMin cfg) (ts ! i) = Some (ts ! Suc i))
     \<and> (if create (drv (trial_format (cfg_format cfg) (last ts)))
            \<and> version_le (last ts)
                 (granted_version (drv (trial_format (cfg_format cfg) (last ts))))
         then stderr out \<noteq> [''cannot create context'']
         else last ts = (tryMajorMin cfg, tryMinorMin cfg)
            \<and> step_down (tryMajorMin cfg) (tryMinorMin cfg) (last ts) = None
            \<and> stderr out = [''cannot create context''] \<and> exit_code out = 1)
     \<and> (opt_version opts = None \<longrightarrow>
            hd ts = (4, 9)
          \<and> prefix ts default_trials
          \<and> sorted_wrt (\<lambda>a b. version_less b a) ts
          \<and> (\<not> (create (drv (trial_format (cfg_format cfg) (last ts)))
                 \<and> version_le (last ts)
                      (granted_version (drv (trial_format (cfg_format cfg) (last ts))))) \<longrightarrow>
                ts = default_trials \<and> last ts = (3, 2)))"
proof -
  define P where "P = succeeds drv (cfg_format cfg)"
  define ts where "ts = attempted P (config_trials cfg)"
  have P_iff: "P t \<longleftrightarrow> create (drv (trial_format (cfg_format cfg) t))
            \<and> version_le t (granted_version (drv (trial_format (cfg_format cfg) t)))" for t
    by (simp add: P_def succeeds_iff)
  have notP_iff: "\<not> P t \<longleftrightarrow> \<not> create (drv (trial_format (cfg_format cfg) t))
            \<or> version_less (granted_version (drv (trial_format (cfg_format cfg) t))) t" for t
    by (simp add: P_def not_succeeds_iff)
  note d = config_descent[OF cfg]
  from main_trials_outcome[OF cfg, of drv] obtain out where
    out: "main toUInt drv opts = Some out" and tr: "trials (trace out) = ts"
    and res: "if P (last ts) then stderr out \<noteq> [''cannot create context'']
              else stderr out = [''cannot create context''] \<and> exit_code out = 1"
    unfolding ts_def P_def by blast
  have ne: "ts \<noteq> []"
    by (simp add: ts_def attempted_Nil_iff config_trials_nonempty)
  have hd: "hd ts = (tryMajorMax cfg, tryMinorMax cfg)"
    by (simp add: ts_def hd_attempted config_trials_nonempty d(2))
  have "\<forall>i. Suc i < length ts \<longrightarrow>
            \<not> P (ts ! i)
          \<and> step_down (tryMajorMin cfg) (tryMinorMin cfg) (ts ! i) = Some (ts ! Suc i)"
    unfolding ts_def using attempted_steps[OF d(1)] by blast
  then have steps: "\<forall>i. Suc i < length ts \<longrightarrow>
            (\<not> create (drv (trial_format (cfg_format cfg) (ts ! i)))
             \<or> version_less (granted_version (drv (trial_format (cfg_format cfg) (ts ! i))))
                  (ts ! i))
          \<and> step_down (tryMajorMin cfg) (tryMinorMin cfg) (ts ! i) = Some (ts ! Suc i)"
    by (simp only: notP_iff)
  have stop: "\<not> P (last ts) \<Longrightarrow> step_down (tryMajorMin cfg) (tryMinorMin cfg) (last ts) = None"
    unfolding ts_def
    using attempted_all_failed[of P "config_trials cfg"] descent_last[OF d(1)] by simp
  have floor: "\<not> P (last ts) \<Longrightarrow> last ts = (tryMajorMin cfg, tryMinorMin cfg)"
    unfolding ts_def
    using attempted_all_failed[of P "config_trials cfg"] d(4) by simp
  have "if P (last ts) then stderr out \<noteq> [''cannot create context'']
         else last ts = (tryMajorMin cfg, tryMinorMin cfg)
            \<and> step_down (tryMajorMin cfg) (tryMinorMin cfg) (last ts) = None
            \<and> stderr out = [''cannot create context''] \<and> exit_code out = 1"
    using res stop floor by (simp split: if_splits)
  then have fin: "if create (drv (trial_format (cfg_format cfg) (last ts)))
            \<and> version_le (last ts)
                 (granted_version (drv (trial_format (cfg_format cfg) (last ts))))
         then stderr out \<noteq> [''cannot create context'']
         else last ts = (tryMajorMin cfg, tryMinorMin cfg)
            \<and> step_down (tryMajorMin cfg) (tryMinorMin cfg) (last ts) = None
            \<and> stderr out = [''cannot create context''] \<and> exit_code out = 1"
    by (simp only: P_iff)
  have unc: "hd ts = (4, 9) \<and> prefix ts default_trials
          \<and> sorted_wrt (\<lambda>a b. version_less b a) ts
          \<and> (\<not> (create (drv (trial_format (cfg_format cfg) (last ts)))
                 \<and> version_le (last ts)
                      (granted_version (drv (trial_format (cfg_format cfg) (last ts))))) \<longrightarrow>
                ts = default_trials \<and> last ts = (3, 2))"
    if v: "opt_version opts = None"
  proof -
    have c: "config_trials cfg = default_trials"
      by (rule config_trials_unconstrained[OF cfg v])
    have "hd default_trials = (4, 9)" "last default_trials = (3, 2)"
      by (simp_all add: default_trials_def)
    with c have "hd ts = (4, 9) \<and> prefix ts default_trials
          \<and> sorted_wrt (\<lambda>a b. version_less b a) ts
          \<and> (\<not> P (last ts) \<longrightarrow> ts = default_trials \<and> last ts = (3, 2))"
      unfolding ts_def
      using attempted_prefix[of P default_trials] hd_attempted[of default_trials P]
        sorted_wrt_attempted[OF default_trials_descending, of P]
        attempted_all_failed[of P default_trials] config_trials_nonempty[of cfg]
      by auto
    then show ?thesis
      unfolding P_iff by blast
  qed
  from out tr ne hd steps fin unc show ?thesis
    by (intro exI[of _ out] exI[of _ ts]) blast
qed

theorem negotiation_steps_down_witness:
  "process_command_line decimal_toUInt no_options = Inr default_config
   \<and> opt_version no_options = None
   \<and> (\<exists>out. main decimal_toUInt driver_4_5 no_options = Some out
         \<and> trials (trace out) = [(4, 9), (4, 8), (4, 7), (4, 6), (4, 5)]
         \<and> create (driver_4_5 (trial_format (cfg_format default_config) (4, 9)))
         \<and> granted_version (driver_4_5 (trial_format (cfg_format default_config) (4, 9)))
             = (4, 5)
         \<and> version_less
             (granted_version (driver_4_5 (trial_format (cfg_format default_config) (4, 9))))
             (4, 9)
         \<and> step_down 3 2 (4, 9) = Some (4, 8)
         \<and> version_less
             (granted_version (driver_4_5 (trial_format (cfg_format default_config) (4, 6))))
             (4, 6)
         \<and> step_down 3 2 (4, 6) = Some (4, 5)
         \<and> create (driver_4_5 (trial_format (cfg_format default_config) (4, 5)))
         \<and> version_le (4, 5)
             (granted_version (driver_4_5 (trial_format (cfg_format default_config) (4, 5))))
         \<and> stderr out \<noteq> [''cannot create context''])
   \<and> (\<exists>out. main decimal_toUInt driver_none no_options = Some out
         \<and> trials (trace out) = default_trials
         \<and> \<not> create (driver_none (trial_format (cfg_format default_config) (3, 2)))
         \<and> step_down 3 2 (3, 2) = None
         \<and> stderr out = [''cannot create context'']
         \<and> exit_code out = 1)"
proof -
  let ?fmt = "cfg_format default_config"
  have v: "opt_version no_options = None"
    by (simp add: no_options_def)
  have l: "last default_trials = (3, 2)"
    by (simp add: default_trials_def)
  have le: "version_le (4, 5) (granted_version (driver_4_5 (trial_format ?fmt (4, 5))))"
    by (simp add: driver_4_5_grants version_le_def)
  from negotiation_steps_down[OF process_no_options, of driver_4_5]
  obtain out where out: "main decimal_toUInt driver_4_5 no_options = Some out"
    and steps: "\<forall>i. Suc i < length (trials (trace out)) \<longrightarrow>
            (\<not> create (driver_4_5 (trial_format ?fmt (trials (trace out) ! i)))
             \<or> version_less
                  (granted_version (driver_4_5 (trial_format ?fmt (trials (trace out) ! i))))
                  (trials (trace out) ! i))
          \<and> step_down (tryMajorMin default_config) (tryMinorMin default_config)
                (trials (trace out) ! i)
              = Some (trials (trace out) ! Suc i)"
    and fin: "if create (driver_4_5 (trial_format ?fmt (last (trials (trace out)))))
            \<and> version_le (last (trials (trace out)))
                 (granted_version
                    (driver_4_5 (trial_format ?fmt (last (trials (trace out))))))
         then stderr out \<noteq> [''cannot create context'']
         else last (trials (trace out)) = (tryMajorMin default_config, tryMinorMin default_config)
            \<and> step_down (tryMajorMin default_config) (tryMinorMin default_config)
                (last (trials (trace out))) = None
            \<and> stderr out = [''cannot create context''] \<and> exit_code out = 1"
    by blast
  from trials_driver_4_5 out
  have tr: "trials (trace out) = [(4, 9), (4, 8), (4, 7), (4, 6), (4, 5)]"
    by auto
  from steps[rule_format, of 0] have first:
    "version_less (granted_version (driver_4_5 (trial_format ?fmt (4, 9)))) (4, 9)"
    "step_down 3 2 (4, 9) = Some (4, 8)"
    by (simp_all add: tr default_config_def driver_4_5_grants(1))
  from steps[rule_format, of 3] have fourth:
    "version_less (granted_version (driver_4_5 (trial_format ?fmt (4, 6)))) (4, 6)"
    "step_down 3 2 (4, 6) = Some (4, 5)"
    by (simp_all add: tr default_config_def driver_4_5_grants(1))
  from fin le have err: "stderr out \<noteq> [''cannot create context'']"
    by (simp add: tr driver_4_5_grants(1))
  from negotiation_steps_down[OF process_no_options, of driver_none]
  obtain out' where out': "main decimal_toUInt driver_none no_options = Some out'"
    and fin': "if create (driver_none (trial_format ?fmt (last (trials (trace out')))))
            \<and> version_le (last (trials (trace out')))
                 (granted_version
                    (driver_none (trial_format ?fmt (last (trials (trace out'))))))
         then stderr out' \<noteq> [''cannot create context'']
         else last (trials (trace out')) = (tryMajorMin default_config, tryMinorMin default_config)
            \<and> step_down (tryMajorMin default_config) (tryMinorMin default_config)
                (last (trials (trace out'))) = None
            \<and> stderr out' = [''cannot create context''] \<and> exit_code out' = 1"
    by blast
  from trials_driver_none out' have tr': "trials (trace out') = default_trials"
    by auto
  from fin' l have stop: "step_down 3 2 (3, 2) = None"
    "stderr out' = [''cannot create context'']" "exit_code out' = 1"
    by (simp_all add: tr' default_config_def driver_none_refuses)
  from process_no_options v out tr first fourth le err out' tr' stop
    driver_4_5_grants[of "trial_format ?fmt (4, 9)"]
    driver_4_5_grants(1)[of "trial_format ?fmt (4, 5)"]
    driver_none_refuses[of "trial_format ?fmt (3, 2)"]
  show ?thesis
    by blast
qed

text \<open>
  Claim C2. An attempt ends with \<open>ok\<close> true exactly when \<open>create()\<close> returned true
  and the granted version is not below the trial version. For every run that gets
  past the command line the negotiation loop returns, and when it returns with
  \<open>ok\<close> true the context it hands on was created and its version is not below
  (\<open>tryMajorMin\<close>, \<open>tryMinorMin\<close>); standard output is written only by a run
  that exits with 0, and that run reports on exactly this context.
\<close>

theorem negotiated_version_not_below_floor:
  assumes cfg: "process_command_line toUInt opts = Inr cfg"
  shows "(attempt_ok c M m \<longleftrightarrow>
            create c \<and> version_le (M, m) (majorVersion (format c), minorVersion (format c)))
       \<and> (\<exists>n out.
             negotiate drv (cfg_format cfg) (tryMajorMin cfg) (tryMinorMin cfg)
               (tryMajorMax cfg) (tryMinorMax cfg) 0 [] = Some n
           \<and> (neg_ok n \<longrightarrow>
                 create (neg_context n)
               \<and> version_le (tryMajorMin cfg, tryMinorMin cfg)
                    (majorVersion (format (neg_context n)), minorVersion (format (neg_context n))))
           \<and> main toUInt drv opts = Some out
           \<and> (stdout out \<noteq> [] \<longrightarrow> exit_code out = 0)
           \<and> (exit_code out = 0 \<longrightarrow>
                 neg_ok n \<and> stdout out = report (opt_extensions opts) (neg_context n)))"
proof -
  let ?fmt = "cfg_format cfg"
  let ?as = "attempted (succeeds drv ?fmt) (config_trials cfg)"
  let ?t = "last ?as"
  let ?f = "?fmt\<lparr>majorVersion := fst ?t, minorVersion := snd ?t\<rparr>"
  let ?n = "\<lparr>neg_ok = succeeds drv ?fmt ?t, neg_context = drv ?f, neg_handle = length ?as - 1,
             neg_trace = retry_events ?fmt 0 (butlast ?as)
                @ [NewSurface (length ?as - 1), NewContext (length ?as - 1) ?f]\<rparr>"
  have neg: "negotiate drv ?fmt (tryMajorMin cfg) (tryMinorMin cfg)
               (tryMajorMax cfg) (tryMinorMax cfg) 0 [] = Some ?n"
    using negotiate_config[OF cfg, of drv] by (simp add: Let_def)
  have floor: "version_le (tryMajorMin cfg, tryMinorMin cfg) ?t"
    using config_descent(3)[OF cfg] last_attempted_in[OF config_trials_nonempty] by blast
  have bound: "neg_ok ?n \<longrightarrow> create (neg_context ?n)
      \<and> version_le (tryMajorMin cfg, tryMinorMin cfg)
           (majorVersion (format (neg_context ?n)), minorVersion (format (neg_context ?n)))"
  proof
    assume "neg_ok ?n"
    then have "attempt_ok (drv ?f) (fst ?t) (snd ?t)"
      by (simp add: succeeds_def)
    then have "create (drv ?f)"
      and "version_le ?t (majorVersion (format (drv ?f)), minorVersion (format (drv ?f)))"
      by (simp_all add: attempt_ok_iff)
    with floor show "create (neg_context ?n)
      \<and> version_le (tryMajorMin cfg, tryMinorMin cfg)
           (majorVersion (format (neg_context ?n)), minorVersion (format (neg_context ?n)))"
      by (auto intro: version_le_trans)
  qed
  from main_after_negotiation[OF cfg neg]
  obtain out where out: "main toUInt drv opts = Some out"
    and rep: "stdout out \<noteq> [] \<longrightarrow> exit_code out = 0"
             "exit_code out = 0 \<longrightarrow> neg_ok ?n \<and> stdout out = report (opt_extensions opts) (neg_context ?n)"
    by blast
  show ?thesis
    using neg bound out rep attempt_ok_iff by blast
qed

text \<open>An instance of the theorem: no options, against the 4.6 driver.\<close>

theorem negotiated_version_not_below_floor_witness:
  "process_command_line decimal_toUInt no_options = Inr default_config
   \<and> attempt_ok (sample_context 4 6 CoreProfile) 3 2
   \<and> (\<exists>n out.
         negotiate driver_4_6 (cfg_format default_config) (tryMajorMin default_config)
           (tryMinorMin default_config) (tryMajorMax default_config)
           (tryMinorMax default_config) 0 [] = Some n
       \<and> neg_ok n
       \<and> create (neg_context n)
       \<and> version_le (3, 2)
            (majorVersion (format (neg_context n)), minorVersion (format (neg_context n)))
       \<and> main decimal_toUInt driver_4_6 no_options = Some out
       \<and> exit_code out = 0
       \<and> stdout out = report False (neg_context n))"
proof -
  have a: "attempt_ok (sample_context 4 6 CoreProfile) 3 2"
    by (simp add: attempt_ok_def sample_context_def)
  from negotiated_version_not_below_floor[OF process_no_options, of _ _ _ driver_4_6]
  obtain n out where
    n: "negotiate driver_4_6 (cfg_format default_config) (tryMajorMin default_config)
           (tryMinorMin default_config) (tryMajorMax default_config)
           (tryMinorMax default_config) 0 [] = Some n"
    and ok: "neg_ok n \<longrightarrow> create (neg_context n)
       \<and> version_le (tryMajorMin default_config, tryMinorMin default_config)
            (majorVersion (format (neg_context n)), minorVersion (format (neg_context n)))"
    and out: "main decimal_toUInt driver_4_6 no_options = Some out"
    and rep: "exit_code out = 0 \<longrightarrow>
                 neg_ok n \<and> stdout out = report (opt_extensions no_options) (neg_context n)"
    by blast
  from out have "exit_code out = 0"
    by (auto simp add: main_driver_4_6)
  with rep ok have "neg_ok n" "create (neg_context n)"
    "version_le (3, 2)
       (majorVersion (format (neg_context n)), minorVersion (format (neg_context n)))"
    "stdout out = report False (neg_context n)"
    by (simp_all add: default_config_def no_options_def)
  with process_no_options a n out \<open>exit_code out = 0\<close> show ?thesis by blast
qed

text \<open>
  Claim C3. The claim has every well-formed \<open>--version MAJOR.MINOR\<close> collapse the
  range to the point where \<open>tryMajorMin = tryMajorMax =\<close> MAJOR and
  \<open>tryMinorMin = tryMinorMax =\<close> MINOR. Lines 92--100 parse the two parts with
  \<open>toUInt\<close> and store the \<open>unsigned int\<close> results in the \<open>int\<close> bounds, so a part of
  \<open>2^31\<close> or more arrives as a negative number. The program accepts
  \<open>--version 4294967295.0\<close>: \<open>toUInt\<close> yields 4294967295, both major bounds hold
  \<open>-1\<close>, the one context creation asks for version -1.0, the 4.6 context that the
  sample driver creates passes the version check, and the run prints its report and
  exits with 0.
\<close>

theorem pinned_version_stored_as_int:
  "opt_version pinned_huge = Some ''4294967295.0''
   \<and> split (CHR ''.'') ''4294967295.0'' = [''4294967295'', ''0'']
   \<and> decimal_toUInt ''4294967295'' = Some 4294967295
   \<and> decimal_toUInt ''0'' = Some 0
   \<and> uint (4294967295 :: 32 word) = 4294967295
   \<and> process_command_line decimal_toUInt pinned_huge =
       Inr \<lparr>cfg_format = \<lparr>renderableType = DefaultRenderableType, profile = CoreProfile,
                            majorVersion = 2, minorVersion = 0\<rparr>,
             tryMajorMax = - 1, tryMinorMax = 0, tryMajorMin = - 1, tryMinorMin = 0\<rparr>
   \<and> (- 1 :: int) \<noteq> 4294967295
   \<and> main decimal_toUInt driver_4_6 pinned_huge =
       Some \<lparr>stdout = report False (sample_context 4 6 CoreProfile), stderr = [], exit_code = 0,
             trace = [NewSurface 0,
                      NewContext 0 \<lparr>renderableType = DefaultRenderableType, profile = CoreProfile,
                                    majorVersion = - 1, minorVersion = 0\<rparr>,
                      MakeCurrent 0]\<rparr>"
  using process_pinned_huge main_driver_4_6_pinned_huge
  by (simp add: pinned_huge_def no_options_def decimal_toUInt_def digit_value_def config_huge_def)



text \<open>
  Claim C5 (amended). In every run that gets past the command line, each iteration
  that fails and retries deletes its context and its surface before the next
  iteration allocates a new pair: the trace is the retry blocks of the failed
  attempts followed by the allocation of the last pair, and no surface is allocated
  while anything allocated earlier is alive. The last pair is never deleted: it is
  still allocated when \<open>main\<close> returns, also on the path that leaves the loop with
  failure.
\<close>

theorem retries_release_last_pair_kept:
  assumes cfg: "process_command_line toUInt opts = Inr cfg"
  shows "\<exists>out fs k f. main toUInt drv opts = Some out
     \<and> trace out = retry_events (cfg_format cfg) 0 fs @ [NewSurface k, NewContext k f]
          @ (if stderr out = [''cannot create context''] then [] else [MakeCurrent k])
     \<and> k = length fs
     \<and> released_before_new {} (trace out)
     \<and> live_after (trace out) = {Surface k, Context k}"
proof -
  let ?as = "attempted (succeeds drv (cfg_format cfg)) (config_trials cfg)"
  let ?t = "last ?as"
  let ?k = "length (butlast ?as)"
  let ?f = "(cfg_format cfg)\<lparr>majorVersion := fst ?t, minorVersion := snd ?t\<rparr>"
  from main_trace[OF cfg, of drv]
  obtain out where out: "main toUInt drv opts = Some out"
    and tr: "trace out = retry_events (cfg_format cfg) 0 (butlast ?as)
                @ [NewSurface ?k, NewContext ?k ?f]
                @ (if stderr out = [''cannot create context''] then [] else [MakeCurrent ?k])"
    by blast
  have "released_before_new {} (trace out)"
    by (simp add: tr released_before_new_retry)
  moreover have "live_after (trace out) = {Surface ?k, Context ?k}"
    by (simp add: tr live_after_def foldl_exec_retry_only insert_commute)
  ultimately show ?thesis
    using out tr by blast
qed

text \<open>An instance: no options against the 4.6 driver. Three iterations retry, the fourth
  pair is the one that stays.\<close>

theorem retries_release_last_pair_kept_witness:
  "process_command_line decimal_toUInt no_options = Inr default_config
   \<and> (\<exists>out. main decimal_toUInt driver_4_6 no_options = Some out
         \<and> trace out =
             retry_events (cfg_format default_config) 0 [(4, 9), (4, 8), (4, 7)]
             @ [NewSurface 3,
                NewContext 3 \<lparr>renderableType = DefaultRenderableType, profile = CoreProfile,
                              majorVersion = 4, minorVersion = 6\<rparr>,
                MakeCurrent 3]
         \<and> released_before_new {} (trace out)
         \<and> live_after (trace out) = {Surface 3, Context 3})"
proof -
  from retries_release_last_pair_kept[OF process_no_options, of driver_4_6]
  obtain out where out: "main decimal_toUInt driver_4_6 no_options = Some out"
    and rel: "released_before_new {} (trace out)"
    by blast
  from out have tr: "trace out =
             retry_events (cfg_format default_config) 0 [(4, 9), (4, 8), (4, 7)]
             @ [NewSurface 3,
                NewContext 3 \<lparr>renderableType = DefaultRenderableType, profile = CoreProfile,
                              majorVersion = 4, minorVersion = 6\<rparr>,
                MakeCurrent 3]"
    by (auto simp add: main_driver_4_6)
  have "live_after (trace out) = {Surface 3, Context 3}"
    unfolding tr live_after_def by (simp add: insert_commute)
  with process_no_options out tr rel show ?thesis
    by blast
qed

text \<open>
  The claim as stated fails on the path that leaves the loop with failure:
  \<open>--version 3.3\<close> against the driver that refuses everything ends with exit code 1
  after one allocation and no deletion.
\<close>

theorem last_pair_not_released_counterexample:
  "main decimal_toUInt driver_none pinned_3_3 =
     Some \<lparr>stdout = [], stderr = [''cannot create context''], exit_code = 1,
           trace = [NewSurface 0,
                    NewContext 0 \<lparr>renderableType = DefaultRenderableType, profile = CoreProfile,
                                  majorVersion = 3, minorVersion = 3\<rparr>]\<rparr>
   \<and> live_after [NewSurface 0,
                  NewContext 0 \<lparr>renderableType = DefaultRenderableType, profile = CoreProfile,
                                majorVersion = 3, minorVersion = 3\<rparr>]
       = {Surface 0, Context 0}
   \<and> {Surface 0, Context 0} \<noteq> {}"
  by (simp add: main_negotiated[OF process_pinned_3_3] Let_def config_trials_def config_3_3_def
        succeeds_def attempt_ok_def driver_none_def failed_context_def sample_context_def
        live_after_def insert_commute)

text \<open>
  Claim C6. Every run returns. A run that exits with 1 has written nothing to standard
  output and exactly one line to standard error, one of the five diagnostics; every
  other run exits with 0, has written nothing to standard error and has written the
  whole report of one context to standard output.
\<close>

theorem no_partial_report:
  "\<exists>out. main toUInt drv opts = Some out
     \<and> (exit_code out = 1 \<longrightarrow>
           stdout out = []
         \<and> stderr out \<in> {[''invalid type''], [''invalid profile''], [''invalid version''],
                           [''cannot create context''], [''cannot make context current'']})
     \<and> (exit_code out \<noteq> 1 \<longrightarrow>
           exit_code out = 0 \<and> stderr out = [] \<and> stdout out \<noteq> []
         \<and> (\<exists>context. stdout out = report (opt_extensions opts) context))"
proof (cases "process_command_line toUInt opts")
  case (Inl msg)
  from process_command_line_Inl[OF Inl] Inl show ?thesis
    by (auto simp add: main_def)
next
  case (Inr cfg)
  from main_exit[OF Inr, of drv] show ?thesis
    using report_nonempty by auto
qed

text \<open>Two instances: \<open>--version 3.3\<close> against the driver that refuses everything exits
  with 1, no options against the 4.6 driver exits with 0.\<close>

theorem no_partial_report_witness:
  "(\<exists>out. main decimal_toUInt driver_none pinned_3_3 = Some out
       \<and> exit_code out = 1 \<and> stdout out = [] \<and> stderr out = [''cannot create context''])
   \<and> (\<exists>out. main decimal_toUInt driver_4_6 no_options = Some out
       \<and> exit_code out = 0 \<and> stderr out = [] \<and> stdout out \<noteq> []
       \<and> stdout out = report False (sample_context 4 6 CoreProfile))"
proof -
  from no_partial_report[of decimal_toUInt driver_none pinned_3_3]
  obtain out where out: "main decimal_toUInt driver_none pinned_3_3 = Some out"
    and fail: "exit_code out = 1 \<longrightarrow> stdout out = []"
    by blast
  from out have e: "exit_code out = 1" and s: "stderr out = [''cannot create context'']"
    by (auto simp add: main_driver_none_pinned_3_3)
  from no_partial_report[of decimal_toUInt driver_4_6 no_options]
  obtain out' where out': "main decimal_toUInt driver_4_6 no_options = Some out'"
    and succ: "exit_code out' \<noteq> 1 \<longrightarrow>
           exit_code out' = 0 \<and> stderr out' = [] \<and> stdout out' \<noteq> []"
    by blast
  from out' have e': "exit_code out' \<noteq> 1"
    and r: "stdout out' = report False (sample_context 4 6 CoreProfile)"
    by (auto simp add: main_driver_4_6)
  from out fail e s out' succ e' r show ?thesis
    by blast
qed

text \<open>
  Claim C7. When the type value is malformed the run ends with the single line
  \<open>invalid type\<close> on standard error, exit code 1, nothing on standard output and no
  surface or context allocated; likewise \<open>invalid profile\<close> when the type is accepted
  and the profile value is malformed, and \<open>invalid version\<close> when type and profile
  are accepted and the version value is malformed. So every run with a malformed
  value ends this way with exactly one of the three lines.
\<close>

theorem malformed_option_fails_fast:
  "(malformed_type opts \<longrightarrow>
      main toUInt drv opts =
        Some \<lparr>stdout = [], stderr = [''invalid type''], exit_code = 1, trace = []\<rparr>)
   \<and> (\<not> malformed_type opts \<and> malformed_profile opts \<longrightarrow>
      main toUInt drv opts =
        Some \<lparr>stdout = [], stderr = [''invalid profile''], exit_code = 1, trace = []\<rparr>)
   \<and> (\<not> malformed_type opts \<and> \<not> malformed_profile opts \<and> malformed_version toUInt opts \<longrightarrow>
      main toUInt drv opts =
        Some \<lparr>stdout = [], stderr = [''invalid version''], exit_code = 1, trace = []\<rparr>)
   \<and> (malformed_type opts \<or> malformed_profile opts \<or> malformed_version toUInt opts \<longrightarrow>
      (\<exists>out msg. main toUInt drv opts = Some out
         \<and> stdout out = [] \<and> stderr out = [msg] \<and> exit_code out = 1 \<and> trace out = []
         \<and> msg \<in> {''invalid type'', ''invalid profile'', ''invalid version''}))"
proof -
  have t: "main toUInt drv opts =
        Some \<lparr>stdout = [], stderr = [''invalid type''], exit_code = 1, trace = []\<rparr>"
    if "malformed_type opts"
    using process_command_line_malformed_type[OF that] by (simp add: main_def)
  have p: "main toUInt drv opts =
        Some \<lparr>stdout = [], stderr = [''invalid profile''], exit_code = 1, trace = []\<rparr>"
    if "\<not> malformed_type opts" "malformed_profile opts"
    using process_command_line_malformed_profile[OF that] by (simp add: main_def)
  have v: "main toUInt drv opts =
        Some \<lparr>stdout = [], stderr = [''invalid version''], exit_code = 1, trace = []\<rparr>"
    if "\<not> malformed_type opts" "\<not> malformed_profile opts" "malformed_version toUInt opts"
    using process_command_line_malformed_version[OF that] by (simp add: main_def)
  have any: "\<exists>out msg. main toUInt drv opts = Some out
         \<and> stdout out = [] \<and> stderr out = [msg] \<and> exit_code out = 1 \<and> trace out = []
         \<and> msg \<in> {''invalid type'', ''invalid profile'', ''invalid version''}"
    if "malformed_type opts \<or> malformed_profile opts \<or> malformed_version toUInt opts"
  proof -
    from that t p v consider
        "main toUInt drv opts =
           Some \<lparr>stdout = [], stderr = [''invalid type''], exit_code = 1, trace = []\<rparr>"
      | "main toUInt drv opts =
           Some \<lparr>stdout = [], stderr = [''invalid profile''], exit_code = 1, trace = []\<rparr>"
      | "main toUInt drv opts =
           Some \<lparr>stdout = [], stderr = [''invalid version''], exit_code = 1, trace = []\<rparr>"
      by blast
    then show ?thesis
      by cases simp_all
  qed
  from t p v any show ?thesis by blast
qed

text \<open>Three instances: \<open>--type foo\<close>, \<open>--type OpenGL --profile es\<close> and
  \<open>--version 4\<close>.\<close>

theorem malformed_option_fails_fast_witness:
  "malformed_type type_foo
   \<and> main decimal_toUInt driver_4_6 type_foo =
        Some \<lparr>stdout = [], stderr = [''invalid type''], exit_code = 1, trace = []\<rparr>
   \<and> \<not> malformed_type profile_es \<and> malformed_profile profile_es
   \<and> main decimal_toUInt driver_4_6 profile_es =
        Some \<lparr>stdout = [], stderr = [''invalid profile''], exit_code = 1, trace = []\<rparr>
   \<and> \<not> malformed_type version_4 \<and> \<not> malformed_profile version_4
   \<and> malformed_version decimal_toUInt version_4
   \<and> main decimal_toUInt driver_4_6 version_4 =
        Some \<lparr>stdout = [], stderr = [''invalid version''], exit_code = 1, trace = []\<rparr>"
proof -
  have a: "malformed_type type_foo"
    by (simp add: malformed_type_def type_foo_def no_options_def compare_ci_samples)
  have b: "\<not> malformed_type profile_es" "malformed_profile profile_es"
    by (simp_all add: malformed_type_def malformed_profile_def profile_es_def no_options_def
          compare_ci_samples)
  have c: "\<not> malformed_type version_4" "\<not> malformed_profile version_4"
    "malformed_version decimal_toUInt version_4"
    by (simp_all add: malformed_type_def malformed_profile_def malformed_version_def
          version_4_def no_options_def)
  from a b c
    malformed_option_fails_fast[of type_foo decimal_toUInt driver_4_6]
    malformed_option_fails_fast[of profile_es decimal_toUInt driver_4_6]
    malformed_option_fails_fast[of version_4 decimal_toUInt driver_4_6]
  show ?thesis by blast
qed

text \<open>
  Claim C8. With the extensions flag the program prints \<open>Extensions:\<close> and then the
  sorted extensions, one per line after four blanks. The sorted extensions, and the
  printed lines as well, are in ascending lexicographic order without duplicates;
  they are exactly the non-empty members of the context's extension set. Without the
  flag nothing is printed for the extensions: the report is the general information
  followed by the limits.
\<close>

theorem extension_list_sorted_distinct_nonempty:
  "print_extensions True c = ''Extensions:'' # map ((@) ''    '') (sortedExtensions c)
   \<and> sorted (sortedExtensions c)
   \<and> distinct (sortedExtensions c)
   \<and> sorted_wrt (<) (sortedExtensions c)
   \<and> [] \<notin> set (sortedExtensions c)
   \<and> set (sortedExtensions c) = set (list_of_dlist (extensions c)) - {[]}
   \<and> sorted (tl (print_extensions True c))
   \<and> distinct (tl (print_extensions True c))
   \<and> ''    '' \<notin> set (tl (print_extensions True c))
   \<and> print_extensions False c = []
   \<and> report True c = general_info c @ print_extensions True c @ map render (limits c)
   \<and> report False c = general_info c @ map render (limits c)"
  by (simp add: print_extensions_def report_def sortedExtensions_sorted
        sortedExtensions_distinct sortedExtensions_strict sortedExtensions_set
        sorted_map_append distinct_map inj_on_def image_iff)

text \<open>An instance: the sample context, whose set holds two names and the empty string.\<close>

theorem extension_list_sorted_distinct_nonempty_witness:
  "list_of_dlist (extensions (sample_context 4 6 CoreProfile))
     = [''GL_EXT_texture'', [], ''GL_ARB_sync'']
   \<and> print_extensions True (sample_context 4 6 CoreProfile)
     = [''Extensions:'', ''    GL_ARB_sync'', ''    GL_EXT_texture'']
   \<and> print_extensions False (sample_context 4 6 CoreProfile) = []"
  using extension_list_sorted_distinct_nonempty[of "sample_context 4 6 CoreProfile"]
    sortedExtensions_sample
  by (simp add: sample_context_def)




end
